theory Spec2Isabelle
  imports Complex_Main
begin

section \<open>Python values, exceptions and the state-and-exception monad\<close>

text \<open>
  The module \<^verbatim>\<open>thermo/phases.py\<close> computes with Python floats. They are modelled as
  \<^typ>\<open>real\<close>: rounding, infinities and NaN are outside the model. What Python raises
  is kept: \<^verbatim>\<open>math.log\<close> of a non-positive number raises \<^verbatim>\<open>ValueError\<close>, a float
  division by zero raises \<^verbatim>\<open>ZeroDivisionError\<close>, a list index out of range raises
  \<^verbatim>\<open>IndexError\<close>, a missing attribute raises \<^verbatim>\<open>AttributeError\<close>, an unbound name
  raises \<^verbatim>\<open>NameError\<close>, and arithmetic on \<^verbatim>\<open>None\<close> raises \<^verbatim>\<open>TypeError\<close>.
\<close>

datatype error =
    AttributeError | ValueError | NameError | IndexError | ZeroDivisionError
  | TypeError | OverflowError

text \<open>A method that reads and writes attributes of \<^verbatim>\<open>self\<close>: it either raises or
  returns a value together with the object after the call.\<close>

type_synonym ('s, 'a) meth = "'s \<Rightarrow> error + ('a \<times> 's)"

definition ret :: "'a \<Rightarrow> ('s, 'a) meth" where
  "ret x = (\<lambda>s. Inr (x, s))"

definition raise :: "error \<Rightarrow> ('s, 'a) meth" where
  "raise e = (\<lambda>s. Inl e)"

definition bnd :: "('s, 'a) meth \<Rightarrow> ('a \<Rightarrow> ('s, 'b) meth) \<Rightarrow> ('s, 'b) meth" where
  "bnd m f = (\<lambda>s. case m s of Inl e \<Rightarrow> Inl e | Inr (x, s') \<Rightarrow> f x s')"

text \<open>Lifting a computation that has no access to \<^verbatim>\<open>self\<close>.\<close>

definition lift :: "error + 'a \<Rightarrow> ('s, 'a) meth" where
  "lift r = (\<lambda>s. case r of Inl e \<Rightarrow> Inl e | Inr x \<Rightarrow> Inr (x, s))"

definition rbind :: "error + 'a \<Rightarrow> ('a \<Rightarrow> error + 'b) \<Rightarrow> error + 'b" where
  "rbind r f = (case r of Inl e \<Rightarrow> Inl e | Inr x \<Rightarrow> f x)"

text \<open>A list comprehension or a \<^verbatim>\<open>for\<close> loop appending to a list: the elements are
  computed left to right and the first exception ends the loop.\<close>

fun mapE :: "('a \<Rightarrow> error + 'b) \<Rightarrow> 'a list \<Rightarrow> error + 'b list" where
  "mapE f [] = Inr []"
| "mapE f (x # xs) =
     (case f x of Inl e \<Rightarrow> Inl e
      | Inr y \<Rightarrow> (case mapE f xs of Inl e \<Rightarrow> Inl e | Inr ys \<Rightarrow> Inr (y # ys)))"

text \<open>An attribute that may be absent, \<^verbatim>\<open>xs[i]\<close>, \<^verbatim>\<open>a/b\<close> on floats,
  \<^verbatim>\<open>math.log\<close> and \<^verbatim>\<open>math.exp\<close>.\<close>

definition attr :: "'a option \<Rightarrow> error + 'a" where
  "attr a = (case a of None \<Rightarrow> Inl AttributeError | Some v \<Rightarrow> Inr v)"

definition idx :: "'a list \<Rightarrow> nat \<Rightarrow> error + 'a" where
  "idx xs i = (if i < length xs then Inr (xs ! i) else Inl IndexError)"

definition fdiv :: "real \<Rightarrow> real \<Rightarrow> error + real" where
  "fdiv a b = (if b = 0 then Inl ZeroDivisionError else Inr (a / b))"

definition log_py :: "real \<Rightarrow> error + real" where
  "log_py x = (if 0 < x then Inr (ln x) else Inl ValueError)"

text \<open>\<^verbatim>\<open>fluids.constants.R\<close>, the molar gas constant, a constant of another package.
  No proof below depends on its value.\<close>

definition R :: real where
  "R = 8.31446261815324"

section \<open>The Phase base class\<close>

text \<open>
  An object is its typed state attributes and the attributes the accessors add to it
  when they memoise a result (\<^verbatim>\<open>self._log_zs = ...\<close>), kept here by attribute name:
  \<open>fcache\<close> for the float-valued ones and \<open>lcache\<close> for the list-valued ones.
  A state attribute that has not been assigned is \<open>None\<close>; reading it raises
  \<^verbatim>\<open>AttributeError\<close>.
\<close>

text \<open>A pure-component correlation object (\<^verbatim>\<open>HeatCapacityGas\<close>, \<^verbatim>\<open>VaporPressure\<close>,
  \<^verbatim>\<open>VolumeLiquid\<close>, \<^verbatim>\<open>EnthalpyVaporization\<close>, ...), an object of another module:
  its attributes, and its methods as functions that return or raise. \<open>call\<close> is
  \<^verbatim>\<open>obj(T)\<close>, which may return \<^verbatim>\<open>None\<close>.\<close>

record corr =
  locked :: bool
  best_fit_Tmin :: real
  best_fit_Tmin_slope :: real
  best_fit_Tmin_value :: real
  best_fit_Tmax :: real
  best_fit_Tmax_slope :: real
  best_fit_Tmax_value :: real
  best_fit_log_coeff :: real
  best_fit_coeffs :: "real list"
  best_fit_int_coeffs :: "real list"
  best_fit_T_int_T_coeffs :: "real list"
  best_fit_d_coeffs :: "real list"
  best_fit_d2_coeffs :: "real list"
  best_fit_Tc :: real
  Tmax :: real
  call :: "real \<Rightarrow> error + real option"
  extrapolate_tabular :: "real \<Rightarrow> error + real"
  T_dependent_property :: "real \<Rightarrow> error + real"
  T_dependent_property_derivative :: "real \<Rightarrow> nat \<Rightarrow> error + real"
  T_dependent_property_integral :: "real \<Rightarrow> real \<Rightarrow> error + real"
  T_dependent_property_integral_over_T :: "real \<Rightarrow> real \<Rightarrow> error + real"

text \<open>The tuple \<^verbatim>\<open>Cpgs_data\<close> (and \<^verbatim>\<open>Cpls_data\<close>) built by \<^verbatim>\<open>setup_Cpigs\<close>; the
  field \<open>cpK_...\<close> is the entry \<^verbatim>\<open>Cps_data[K]\<close>, a list over the components.\<close>

record cp_table =
  cp0_Tmins :: "real list"
  cp1_Tmin_slopes :: "real list"
  cp2_Tmin_values :: "real list"
  cp3_Tmaxes :: "real list"
  cp4_Tmax_slopes :: "real list"
  cp5_Tmax_values :: "real list"
  cp6_log_coeffs :: "real list"
  cp7_int_Tmin_offsets :: "real list"
  cp8_int_Tmax_offsets :: "real list"
  cp9_logint_Tmin_offsets :: "real list"
  cp10_logint_Tmax_offsets :: "real list"
  cp11_int_T_ref :: "real list"
  cp12_coeffs :: "real list list"
  cp13_int_coeffs :: "real list list"
  cp14_T_int_T_coeffs :: "real list list"
  cp15_logint_T_ref :: "real list"

record phase =
  T :: "real option"
  P :: "real option"
  zs :: "real list option"
  N :: "nat option"
  cmps :: "nat list option"
  HeatCapacityGases :: "corr list option"
  Cpgs_locked :: bool
  Cpgs_data :: "cp_table option"
  Hfs :: "real option list option"
  Gfs :: "real option list option"
  Sfs :: "real option list option"
  fcache :: "string \<rightharpoonup> real"
  lcache :: "string \<rightharpoonup> real list"

text \<open>\<^verbatim>\<open>Phase.log_zs\<close>: the memoised list of \<^verbatim>\<open>log(zi)\<close>. The comprehension is tried
  first; when it raises \<^verbatim>\<open>ValueError\<close> the list is rebuilt element by element, an
  element whose logarithm raises \<^verbatim>\<open>ValueError\<close> becoming the constant.\<close>

definition log_or_floor :: "real \<Rightarrow> error + real" where
  "log_or_floor zi =
     (case log_py zi of Inl e \<Rightarrow> (if e = ValueError then Inr (- 690.7755278982137) else Inl e)
      | Inr v \<Rightarrow> Inr v)"

text \<open>Reading an attribute of \<^verbatim>\<open>self\<close>, and a \<^verbatim>\<open>for\<close> loop whose body calls
  methods of \<^verbatim>\<open>self\<close>.\<close>

definition getattr :: "('s \<Rightarrow> 'a option) \<Rightarrow> ('s, 'a) meth" where
  "getattr f = (\<lambda>s. case f s of None \<Rightarrow> Inl AttributeError | Some v \<Rightarrow> Inr (v, s))"

fun mapM :: "('a \<Rightarrow> ('s, 'b) meth) \<Rightarrow> 'a list \<Rightarrow> ('s, 'b list) meth" where
  "mapM f [] = ret []"
| "mapM f (x # xs) = bnd (f x) (\<lambda>y. bnd (mapM f xs) (\<lambda>ys. ret (y # ys)))"

text \<open>\<^verbatim>\<open>Phase.V_ideal_gas\<close>: \<^verbatim>\<open>R*self.T/self.P\<close>.\<close>

definition V_ideal_gas :: "('a phase_scheme, real) meth" where
  "V_ideal_gas =
     bnd (getattr T) (\<lambda>t. bnd (getattr P) (\<lambda>p. lift (fdiv (R * t) p)))"

text \<open>\<^verbatim>\<open>Phase.phis\<close>: \<^verbatim>\<open>[exp(i) for i in self.lnphis()]\<close>, for the \<^verbatim>\<open>lnphis\<close> of the
  object's class.\<close>

definition Phase_phis :: "('s, real list) meth \<Rightarrow> ('s, real list) meth" where
  "Phase_phis lnphis_m = bnd lnphis_m (\<lambda>l. ret (map exp l))"

text \<open>\<^verbatim>\<open>Phase.gammas\<close>, for the \<^verbatim>\<open>phis\<close> and \<^verbatim>\<open>to_TP_zs\<close> of the object's class: the
  mixture fugacity coefficients divided by those of the pure components, each taken from
  a new phase at the same \<^verbatim>\<open>T\<close> and \<^verbatim>\<open>P\<close> with composition \<^verbatim>\<open>zeros\<close>,
  \<^verbatim>\<open>zeros[i] = 1.0\<close>.\<close>

definition gammas_pure_phi ::
  "('a phase_scheme, real list) meth \<Rightarrow>
   (real \<Rightarrow> real \<Rightarrow> real list \<Rightarrow> ('a phase_scheme, 'a phase_scheme) meth) \<Rightarrow>
   real \<Rightarrow> real \<Rightarrow> nat \<Rightarrow> nat \<Rightarrow> ('a phase_scheme, real) meth" where
  "gammas_pure_phi phis_m to_TP_zs_m t p n i =
     (let zeros = replicate n 0 in
      if i < length zeros then
        bnd (to_TP_zs_m t p (zeros[i := 1])) (\<lambda>new.
          lift (case phis_m new of Inl e \<Rightarrow> Inl e | Inr (ph, new') \<Rightarrow> idx ph i))
      else raise IndexError)"

definition Phase_gammas ::
  "('a phase_scheme, real list) meth \<Rightarrow>
   (real \<Rightarrow> real \<Rightarrow> real list \<Rightarrow> ('a phase_scheme, 'a phase_scheme) meth) \<Rightarrow>
   ('a phase_scheme, real list) meth" where
  "Phase_gammas phis_m to_TP_zs_m =
     bnd phis_m (\<lambda>phis.
     bnd (getattr T) (\<lambda>t. bnd (getattr P) (\<lambda>p. bnd (getattr zs) (\<lambda>z.
     bnd (getattr cmps) (\<lambda>cs. bnd (getattr N) (\<lambda>n.
     bnd (mapM (gammas_pure_phi phis_m to_TP_zs_m t p n) cs) (\<lambda>phis_pure.
     lift (mapE (\<lambda>i. rbind (idx phis i) (\<lambda>a. rbind (idx phis_pure i) (\<lambda>b. fdiv a b)))
             cs))))))))"

section \<open>IdealGas\<close>

text \<open>\<^verbatim>\<open>IdealGas.__init__\<close> assigns the correlation objects and the formation properties,
  and \<^verbatim>\<open>N\<close> when the heat capacities are given; \<^verbatim>\<open>T\<close>, \<^verbatim>\<open>P\<close>, \<^verbatim>\<open>zs\<close> and
  \<^verbatim>\<open>cmps\<close> are assigned by \<^verbatim>\<open>to_TP_zs\<close> only. \<^verbatim>\<open>Cpgs_locked\<close> and \<^verbatim>\<open>Cpgs_data\<close>
  keep the values of the class \<^verbatim>\<open>Phase\<close>.\<close>

definition IdealGas_init ::
  "corr list option \<Rightarrow> real option list option \<Rightarrow> real option list option \<Rightarrow> phase" where
  "IdealGas_init hcgs hfs gfs =
     \<lparr>T = None, P = None, zs = None,
      N = (case hcgs of None \<Rightarrow> None | Some l \<Rightarrow> Some (length l)),
      cmps = None, HeatCapacityGases = hcgs, Cpgs_locked = False, Cpgs_data = None,
      Hfs = hfs, Gfs = gfs,
      Sfs = (case (hfs, gfs) of
               (Some h, Some g) \<Rightarrow>
                 (if None \<notin> set h \<and> None \<notin> set g
                  then Some (map (\<lambda>(Hfi, Gfi). Some ((the Hfi - the Gfi) / 298.15)) (zip h g))
                  else None)
             | _ \<Rightarrow> None),
      fcache = Map.empty, lcache = Map.empty\<rparr>"

definition IdealGas_lnphis :: "('a phase_scheme, real list) meth" where
  "IdealGas_lnphis = bnd (getattr N) (\<lambda>n. ret (replicate n 0))"

definition IdealGas_to_TP_zs :: "real \<Rightarrow> real \<Rightarrow> real list \<Rightarrow> (phase, phase) meth" where
  "IdealGas_to_TP_zs t p z = (\<lambda>self.
     Inr (\<lparr>T = Some t, P = Some p, zs = Some z, N = Some (length z),
           cmps = Some [0..<length z],
           HeatCapacityGases = HeatCapacityGases self, Cpgs_locked = False, Cpgs_data = None,
           Hfs = Hfs self, Gfs = Gfs self, Sfs = Sfs self,
           fcache = Map.empty, lcache = Map.empty\<rparr>, self))"

definition IdealGas_phis :: "(phase, real list) meth" where
  "IdealGas_phis = Phase_phis IdealGas_lnphis"

definition IdealGas_gammas :: "(phase, real list) meth" where
  "IdealGas_gammas = Phase_gammas IdealGas_phis IdealGas_to_TP_zs"

section \<open>EOSGas\<close>

text \<open>
  The equation-of-state mixture object \<^verbatim>\<open>eos_mix\<close> belongs to another module. Its
  per-root attributes (\<^verbatim>\<open>V_g\<close>, \<^verbatim>\<open>Z_g\<close>, \<^verbatim>\<open>dP_dT_g\<close>, ... and the same with \<^verbatim>\<open>_l\<close>)
  exist when the equation of state has that root at the state; the attributes of one root
  are one \<open>eos_root\<close>, present or absent as a whole. Its methods are functions that
  return or raise; the keyword arguments \<^verbatim>\<open>only_g=True, full_alphas=True\<close> and
  \<^verbatim>\<open>**self.eos_kwargs\<close> are constant and are part of the functions.
\<close>

record eos_root =
  root_V :: real
  root_Z :: real
  root_dP_dT :: real
  root_dP_dV :: real
  root_d2P_dT2 :: real
  root_d2P_dV2 :: real
  root_d2P_dTdV :: real
  root_d2T_dV2 :: real
  root_d2V_dT2 :: real
  root_H_dep :: real
  root_S_dep :: real
  root_Cp_dep :: real

datatype eos_mix = EosMix
  (eos_T: real) (eos_P: real) (eos_zs: "real list")
  (gas: "eos_root option") (liquid: "eos_root option")
  (to_TP_zs_fast: "real \<Rightarrow> real \<Rightarrow> real list \<Rightarrow> error + eos_mix")
  (to_TV_zs: "real option \<Rightarrow> real option \<Rightarrow> real \<Rightarrow> real list \<Rightarrow> error + eos_mix")
  (fugacity_coefficients: "real \<Rightarrow> real list \<Rightarrow> error + real list")
  (eos_dlnphis_dT: "char \<Rightarrow> error + real list")
  (eos_dlnphis_dP: "char \<Rightarrow> error + real list")

text \<open>\<open>eos_class\<close> is the constructor \<^verbatim>\<open>self.eos_class(T=, P=, V=, zs=, **eos_kwargs)\<close>,
  its arguments \<^verbatim>\<open>T\<close>, \<^verbatim>\<open>P\<close>, \<^verbatim>\<open>V\<close> (given or not) and \<^verbatim>\<open>zs\<close>.\<close>

record eos_gas = phase +
  eos_class :: "real option \<Rightarrow> real option \<Rightarrow> real option \<Rightarrow> real list \<Rightarrow> error + eos_mix"
  eos_mix :: "eos_mix option"
  eos_pures_STP :: "eos_mix list option"

text \<open>\<^verbatim>\<open>try: <gas expression> except AttributeError: <liquid expression>\<close>.\<close>

definition except_AttributeError :: "error + 'a \<Rightarrow> error + 'a \<Rightarrow> error + 'a" where
  "except_AttributeError body handler =
     (case body of Inr v \<Rightarrow> Inr v
      | Inl e \<Rightarrow> (if e = AttributeError then handler else Inl e))"


text \<open>The accessors \<^verbatim>\<open>V\<close>, \<^verbatim>\<open>dP_dT\<close>, ..., \<^verbatim>\<open>Cp_dep\<close> of \<^verbatim>\<open>EOSGas\<close> all read
  \<^verbatim>\<open>self.eos_mix.X_g\<close> and, on \<^verbatim>\<open>AttributeError\<close>, \<^verbatim>\<open>self.eos_mix.X_l\<close>.\<close>

definition eos_g :: "eos_gas \<Rightarrow> (eos_root \<Rightarrow> 'a) \<Rightarrow> error + 'a" where
  "eos_g self f = rbind (attr (eos_mix self)) (\<lambda>e. rbind (attr (gas e)) (\<lambda>g. Inr (f g)))"

definition eos_l :: "eos_gas \<Rightarrow> (eos_root \<Rightarrow> 'a) \<Rightarrow> error + 'a" where
  "eos_l self f = rbind (attr (eos_mix self)) (\<lambda>e. rbind (attr (liquid e)) (\<lambda>l. Inr (f l)))"

definition EOSGas_V :: "(eos_gas, real) meth" where
  "EOSGas_V self = lift (except_AttributeError (eos_g self root_V) (eos_l self root_V)) self"












text \<open>The new equation-of-state object of \<^verbatim>\<open>to_TP_zs\<close> and \<^verbatim>\<open>to_zs_TPV\<close>: the fast
  transform of the receiver's \<^verbatim>\<open>eos_mix\<close> and, on \<^verbatim>\<open>AttributeError\<close> (also when the
  receiver has no \<^verbatim>\<open>eos_mix\<close>), a newly constructed one.\<close>

definition eos_from_TP :: "eos_gas \<Rightarrow> real \<Rightarrow> real \<Rightarrow> real list \<Rightarrow> error + eos_mix" where
  "eos_from_TP self t p z =
     except_AttributeError
       (rbind (attr (eos_mix self)) (\<lambda>e. to_TP_zs_fast e t p z))
       (eos_class self (Some t) (Some p) None z)"

definition eos_from_TV :: "eos_gas \<Rightarrow> real \<Rightarrow> real \<Rightarrow> real list \<Rightarrow> error + eos_mix" where
  "eos_from_TV self t v z =
     except_AttributeError
       (rbind (attr (eos_mix self)) (\<lambda>e. to_TV_zs e (Some t) None v z))
       (eos_class self (Some t) None (Some v) z)"

definition eos_from_PV :: "eos_gas \<Rightarrow> real \<Rightarrow> real \<Rightarrow> real list \<Rightarrow> error + eos_mix" where
  "eos_from_PV self p v z =
     except_AttributeError
       (rbind (attr (eos_mix self)) (\<lambda>e. to_TV_zs e None (Some p) v z))
       (eos_class self None (Some p) (Some v) z)"

text \<open>The assignments both transforms make to the new object after its state is set. The
  new object comes from \<^verbatim>\<open>__new__\<close> and has no other attribute. \<^verbatim>\<open>N\<close>, \<^verbatim>\<open>cmps\<close> and
  \<^verbatim>\<open>eos_pures_STP\<close> are copied in this order inside one \<^verbatim>\<open>try\<close>, which ends at the
  first that the receiver lacks.\<close>

definition EOSGas_new ::
  "eos_gas \<Rightarrow> real option \<Rightarrow> real option \<Rightarrow> real list \<Rightarrow> eos_mix option \<Rightarrow> eos_gas" where
  "EOSGas_new self t p z m =
     \<lparr>T = t, P = p, zs = Some z,
      N = N self,
      cmps = (if N self = None then None else cmps self),
      HeatCapacityGases = HeatCapacityGases self,
      Cpgs_locked = Cpgs_locked self, Cpgs_data = Cpgs_data self,
      Hfs = Hfs self, Gfs = Gfs self, Sfs = Sfs self,
      fcache = Map.empty, lcache = Map.empty,
      eos_class = eos_class self, eos_mix = m,
      eos_pures_STP = (if N self = None \<or> cmps self = None then None else eos_pures_STP self)\<rparr>"

definition EOSGas_to_TP_zs :: "real \<Rightarrow> real \<Rightarrow> real list \<Rightarrow> (eos_gas, eos_gas) meth" where
  "EOSGas_to_TP_zs t p z self =
     (case eos_from_TP self t p z of Inl e \<Rightarrow> Inl e
      | Inr m \<Rightarrow> Inr (EOSGas_new self (Some t) (Some p) z (Some m), self))"

text \<open>\<^verbatim>\<open>EOSGas.to_zs_TPV(zs, T=None, P=None, V=None)\<close>. With \<^verbatim>\<open>T\<close> and \<^verbatim>\<open>P\<close> given,
  \<^verbatim>\<open>V\<close> is not looked at. With \<^verbatim>\<open>T\<close> alone, neither branch of the inner
  \<^verbatim>\<open>if/elif\<close> runs and the \<^verbatim>\<open>else: raise\<close> of the outer one is not reached.\<close>

definition EOSGas_to_zs_TPV ::
  "real list \<Rightarrow> real option \<Rightarrow> real option \<Rightarrow> real option \<Rightarrow> (eos_gas, eos_gas) meth" where
  "EOSGas_to_zs_TPV z t p v self =
     (case t of
        Some t' \<Rightarrow>
          (case p of
             Some p' \<Rightarrow>
               (case eos_from_TP self t' p' z of Inl e \<Rightarrow> Inl e
                | Inr m \<Rightarrow> Inr (EOSGas_new self (Some t') (Some p') z (Some m), self))
           | None \<Rightarrow>
               (case v of
                  Some v' \<Rightarrow>
                    (case eos_from_TV self t' v' z of Inl e \<Rightarrow> Inl e
                     | Inr m \<Rightarrow> Inr (EOSGas_new self (Some t') (Some (eos_P m)) z (Some m), self))
                | None \<Rightarrow> Inr (EOSGas_new self (Some t') None z None, self)))
      | None \<Rightarrow>
          (if p \<noteq> None \<and> v \<noteq> None then
             (case eos_from_PV self (the p) (the v) z of Inl e \<Rightarrow> Inl e
              | Inr m \<Rightarrow> Inr (EOSGas_new self (Some (eos_T m)) p z (Some m), self))
           else Inl ValueError))"


subsection \<open>Example objects\<close>

text \<open>A stub equation of state with a fixed gas root and no liquid root (or the reverse),
  whose transforms do not exist (they raise \<^verbatim>\<open>AttributeError\<close>), whose fugacity
  coefficients are all \<open>Z - 1\<close>, and whose constructor returns the state it is given,
  with 300 K or 100000 Pa for the variable that is not given.\<close>

definition ex_root :: "real \<Rightarrow> eos_root" where
  "ex_root v =
     \<lparr>root_V = v, root_Z = 1, root_dP_dT = 2, root_dP_dV = - 3, root_d2P_dT2 = 4,
      root_d2P_dV2 = 5, root_d2P_dTdV = 6, root_d2T_dV2 = 7, root_d2V_dT2 = 8,
      root_H_dep = 9, root_S_dep = 10, root_Cp_dep = 11\<rparr>"

definition ex_eos :: "real \<Rightarrow> real \<Rightarrow> real list \<Rightarrow> eos_root option \<Rightarrow> eos_root option \<Rightarrow> eos_mix" where
  "ex_eos t p z g l =
     EosMix t p z g l
       (\<lambda>t' p' z'. Inl AttributeError) (\<lambda>t' p' v' z'. Inl AttributeError)
       (\<lambda>Z z'. Inr (map (\<lambda>zi. Z - 1) z'))
       (\<lambda>c. if c = CHR ''g'' \<and> g \<noteq> None \<or> c = CHR ''l'' \<and> l \<noteq> None
            then Inr (map (\<lambda>zi. 0) z) else Inl AttributeError)
       (\<lambda>c. if c = CHR ''g'' \<and> g \<noteq> None \<or> c = CHR ''l'' \<and> l \<noteq> None
            then Inr (map (\<lambda>zi. 0) z) else Inl AttributeError)"

definition ex_eos_class ::
  "real option \<Rightarrow> real option \<Rightarrow> real option \<Rightarrow> real list \<Rightarrow> error + eos_mix" where
  "ex_eos_class t p v z =
     Inr (ex_eos (case t of Some t' \<Rightarrow> t' | None \<Rightarrow> 300)
                 (case p of Some p' \<Rightarrow> p' | None \<Rightarrow> 100000) z
                 (Some (ex_root (case v of Some v' \<Rightarrow> v' | None \<Rightarrow> 1))) None)"

definition ex_EOSGas :: "eos_root option \<Rightarrow> eos_root option \<Rightarrow> eos_gas" where
  "ex_EOSGas g l =
     \<lparr>T = Some 300, P = Some 100000, zs = Some [1], N = Some 1, cmps = Some [0],
      HeatCapacityGases = None, Cpgs_locked = False, Cpgs_data = None,
      Hfs = None, Gfs = None, Sfs = None,
      fcache = [''_H'' \<mapsto> 5], lcache = [''_log_zs'' \<mapsto> [0]],
      eos_class = ex_eos_class, eos_mix = Some (ex_eos 300 100000 [1] g l),
      eos_pures_STP = Some []\<rparr>"

section \<open>Ideal-gas heat capacity integrals of the Phase base class\<close>

definition T_REF_IG :: real where "T_REF_IG = 298.15"
definition T_REF_IG_INV :: real where "T_REF_IG_INV = 1.0 / T_REF_IG"
definition P_REF_IG :: real where "P_REF_IG = 101325"
definition P_REF_IG_INV :: real where "P_REF_IG_INV = 1.0 / P_REF_IG"

text \<open>Reading an attribute that every object has, a \<^verbatim>\<open>None\<close> that is subscripted or
  iterated, and \<^verbatim>\<open>obj(T)\<close> where a float is required. A list of floats holds floats
  only: where the source would store a \<^verbatim>\<open>None\<close> returned by \<^verbatim>\<open>obj(T)\<close> in a list and
  raise \<^verbatim>\<open>TypeError\<close> at its first use in arithmetic, the model raises it when the
  list is built.\<close>

definition gets :: "('s \<Rightarrow> 'a) \<Rightarrow> ('s, 'a) meth" where
  "gets f = (\<lambda>s. Inr (f s, s))"

definition not_None :: "'a option \<Rightarrow> error + 'a" where
  "not_None a = (case a of None \<Rightarrow> Inl TypeError | Some v \<Rightarrow> Inr v)"

definition call_float :: "corr \<Rightarrow> real \<Rightarrow> error + real" where
  "call_float obj t = rbind (call obj t) not_None"

text \<open>The memoisation pattern
  \<^verbatim>\<open>try: return self._x  except AttributeError: pass  ...  self._x = v; return v\<close>.\<close>

definition cached_l ::
  "string \<Rightarrow> ('a phase_scheme, real list) meth \<Rightarrow> ('a phase_scheme, real list) meth" where
  "cached_l name body self =
     (case lcache self name of Some v \<Rightarrow> Inr (v, self)
      | None \<Rightarrow>
        (case body self of Inl e \<Rightarrow> Inl e
         | Inr (v, s') \<Rightarrow> Inr (v, s'\<lparr>lcache := (lcache s')(name \<mapsto> v)\<rparr>)))"

definition cached_f ::
  "string \<Rightarrow> ('a phase_scheme, real) meth \<Rightarrow> ('a phase_scheme, real) meth" where
  "cached_f name body self =
     (case fcache self name of Some v \<Rightarrow> Inr (v, self)
      | None \<Rightarrow>
        (case body self of Inl e \<Rightarrow> Inl e
         | Inr (v, s') \<Rightarrow> Inr (v, s'\<lparr>fcache := (fcache s')(name \<mapsto> v)\<rparr>)))"

text \<open>\<^verbatim>\<open>try: <body> except ValueError: <handler>\<close>.\<close>

definition except_ValueError :: "error + 'a \<Rightarrow> error + 'a \<Rightarrow> error + 'a" where
  "except_ValueError body handler =
     (case body of Inr v \<Rightarrow> Inr v
      | Inl e \<Rightarrow> (if e = ValueError then handler else Inl e))"

definition log_zs :: "('a phase_scheme, real list) meth" where
  "log_zs =
     cached_l ''_log_zs''
       (bnd (getattr zs) (\<lambda>z.
          lift (except_ValueError (mapE log_py z) (mapE log_or_floor z))))"

text \<open>A \<^verbatim>\<open>for\<close> loop that updates one variable.\<close>

fun loopE :: "('a \<Rightarrow> 'b \<Rightarrow> error + 'b) \<Rightarrow> 'a list \<Rightarrow> 'b \<Rightarrow> error + 'b" where
  "loopE body [] acc = Inr acc"
| "loopE body (x # xs) acc = rbind (body x acc) (loopE body xs)"

text \<open>The loop \<^verbatim>\<open>tot = 0.0; for c in coeffs: tot = tot*x + c\<close>, which the module writes
  inline and which is the body of \<^verbatim>\<open>fluids.numerics.horner\<close>.\<close>

definition horner :: "real list \<Rightarrow> real \<Rightarrow> real" where
  "horner coeffs x = foldl (\<lambda>tot c. tot * x + c) 0 coeffs"

text \<open>The tuples \<^verbatim>\<open>Psats_data\<close>, \<^verbatim>\<open>Vms_sat_data\<close> (nine lists over the components)
  and \<^verbatim>\<open>Hvap_data\<close> (five).\<close>

record fit_table =
  ft0_Tmins :: "real list"
  ft1_Tmin_slopes :: "real list"
  ft2_Tmin_values :: "real list"
  ft3_Tmaxes :: "real list"
  ft4_Tmax_slopes :: "real list"
  ft5_Tmax_values :: "real list"
  ft6_coeffs :: "real list list"
  ft7_d_coeffs :: "real list list"
  ft8_d2_coeffs :: "real list list"

record hvap_table =
  hv0_Tmins :: "real list"
  hv1_Tmaxes :: "real list"
  hv2_Tcs :: "real list"
  hv3_Tcs_inv :: "real list"
  hv4_coeffs :: "real list list"

text \<open>The functions this module imports from \<^verbatim>\<open>fluids.numerics\<close> and calls; they are
  parameters of the model.\<close>

record numerics =
  best_fit_integral_value ::
    "real \<Rightarrow> real list \<Rightarrow> real \<Rightarrow> real \<Rightarrow> real \<Rightarrow> real \<Rightarrow> real \<Rightarrow> real \<Rightarrow> error + real"
  best_fit_integral_over_T_value ::
    "real \<Rightarrow> real list \<Rightarrow> real \<Rightarrow> real \<Rightarrow> real \<Rightarrow> real \<Rightarrow> real \<Rightarrow> real \<Rightarrow> real \<Rightarrow> error + real"
  horner_log :: "real list \<Rightarrow> real \<Rightarrow> real \<Rightarrow> error + real"
  evaluate_linear_fits :: "fit_table option \<Rightarrow> real \<Rightarrow> error + real list"
  evaluate_linear_fits_d :: "fit_table option \<Rightarrow> real \<Rightarrow> error + real list"
  evaluate_linear_fits_d2 :: "fit_table option \<Rightarrow> real \<Rightarrow> error + real list"

text \<open>\<^verbatim>\<open>Phase.setup_Cpigs\<close>: the sixteen lists, each a comprehension over the
  correlation objects, built when every object is locked.\<close>

definition cp7_entry :: "corr \<Rightarrow> real" where
  "cp7_entry i =
     horner (best_fit_int_coeffs i) (best_fit_Tmin i)
     - best_fit_Tmin i * (0.5 * best_fit_Tmin_slope i * best_fit_Tmin i + best_fit_Tmin_value i
                          - best_fit_Tmin_slope i * best_fit_Tmin i)"

definition cp8_entry :: "corr \<Rightarrow> real" where
  "cp8_entry i =
     horner (best_fit_int_coeffs i) (best_fit_Tmax i)
     - horner (best_fit_int_coeffs i) (best_fit_Tmin i)
     + best_fit_Tmin i * (0.5 * best_fit_Tmin_slope i * best_fit_Tmin i + best_fit_Tmin_value i
                          - best_fit_Tmin_slope i * best_fit_Tmin i)"

definition cp9_entry :: "numerics \<Rightarrow> corr \<Rightarrow> error + real" where
  "cp9_entry nm i =
     rbind (horner_log nm (best_fit_T_int_T_coeffs i) (best_fit_log_coeff i) (best_fit_Tmin i))
       (\<lambda>h. rbind (log_py (best_fit_Tmin i)) (\<lambda>l.
          Inr (h - (best_fit_Tmin_slope i * best_fit_Tmin i
                    + (best_fit_Tmin_value i - best_fit_Tmin_slope i * best_fit_Tmin i) * l))))"

definition cp10_entry :: "numerics \<Rightarrow> corr \<Rightarrow> error + real" where
  "cp10_entry nm i =
     rbind (horner_log nm (best_fit_T_int_T_coeffs i) (best_fit_log_coeff i) (best_fit_Tmax i))
       (\<lambda>hmax.
     rbind (horner_log nm (best_fit_T_int_T_coeffs i) (best_fit_log_coeff i) (best_fit_Tmin i))
       (\<lambda>hmin.
     rbind (log_py (best_fit_Tmin i)) (\<lambda>lmin.
     rbind (log_py (best_fit_Tmax i)) (\<lambda>lmax.
       Inr (hmax - hmin
            + (best_fit_Tmin_slope i * best_fit_Tmin i
               + (best_fit_Tmin_value i - best_fit_Tmin_slope i * best_fit_Tmin i) * lmin)
            - (best_fit_Tmax_value i - best_fit_Tmax i * best_fit_Tmax_slope i) * lmax)))))"

definition cp11_entry :: "numerics \<Rightarrow> corr \<Rightarrow> error + real" where
  "cp11_entry nm i =
     best_fit_integral_value nm T_REF_IG (best_fit_int_coeffs i) (best_fit_Tmin i)
       (best_fit_Tmax i) (best_fit_Tmin_value i) (best_fit_Tmax_value i)
       (best_fit_Tmin_slope i) (best_fit_Tmax_slope i)"

definition cp15_entry :: "numerics \<Rightarrow> corr \<Rightarrow> error + real" where
  "cp15_entry nm i =
     best_fit_integral_over_T_value nm T_REF_IG (best_fit_T_int_T_coeffs i) (best_fit_log_coeff i)
       (best_fit_Tmin i) (best_fit_Tmax i) (best_fit_Tmin_value i) (best_fit_Tmax_value i)
       (best_fit_Tmin_slope i) (best_fit_Tmax_slope i)"

definition setup_Cpigs :: "numerics \<Rightarrow> corr list option \<Rightarrow> error + (bool \<times> cp_table option)" where
  "setup_Cpigs nm hcgs =
     (let lk = (case hcgs of None \<Rightarrow> False
                         | Some objs \<Rightarrow> list_all locked objs) in
      if lk then
        (let objs = the hcgs in
         rbind (mapE (cp9_entry nm) objs) (\<lambda>c9.
         rbind (mapE (cp10_entry nm) objs) (\<lambda>c10.
         rbind (mapE (cp11_entry nm) objs) (\<lambda>c11.
         rbind (mapE (cp15_entry nm) objs) (\<lambda>c15.
           Inr (lk,
                Some \<lparr>cp0_Tmins = map best_fit_Tmin objs,
                      cp1_Tmin_slopes = map best_fit_Tmin_slope objs,
                      cp2_Tmin_values = map best_fit_Tmin_value objs,
                      cp3_Tmaxes = map best_fit_Tmax objs,
                      cp4_Tmax_slopes = map best_fit_Tmax_slope objs,
                      cp5_Tmax_values = map best_fit_Tmax_value objs,
                      cp6_log_coeffs = map best_fit_log_coeff objs,
                      cp7_int_Tmin_offsets = map cp7_entry objs,
                      cp8_int_Tmax_offsets = map cp8_entry objs,
                      cp9_logint_Tmin_offsets = c9,
                      cp10_logint_Tmax_offsets = c10,
                      cp11_int_T_ref = c11,
                      cp12_coeffs = map best_fit_coeffs objs,
                      cp13_int_coeffs = map best_fit_int_coeffs objs,
                      cp14_T_int_T_coeffs = map best_fit_T_int_T_coeffs objs,
                      cp15_logint_T_ref = c15\<rparr>))))))
      else Inr (lk, None))"

text \<open>\<^verbatim>\<open>Phase._Cp_integrals_pure_fast\<close>: the body of the loop for component \<open>i\<close>, and
  the loop over \<^verbatim>\<open>self.cmps\<close>.\<close>

definition Cp_integral_fast_i :: "cp_table \<Rightarrow> real \<Rightarrow> nat \<Rightarrow> error + real" where
  "Cp_integral_fast_i d t i =
     rbind (idx (cp0_Tmins d) i) (\<lambda>Tmin.
     if t < Tmin then
       rbind (idx (cp2_Tmin_values d) i) (\<lambda>v. rbind (idx (cp1_Tmin_slopes d) i) (\<lambda>s.
         (let x1 = v - s * Tmin; H = t * (0.5 * s * t + x1)
          in rbind (idx (cp11_int_T_ref d) i) (\<lambda>r. Inr (H - r)))))
     else
       rbind (idx (cp3_Tmaxes d) i) (\<lambda>Tmax.
       if t \<le> Tmax then
         rbind (idx (cp13_int_coeffs d) i) (\<lambda>cs. rbind (idx (cp7_int_Tmin_offsets d) i) (\<lambda>off.
           (let H = horner cs t - off
            in rbind (idx (cp11_int_T_ref d) i) (\<lambda>r. Inr (H - r)))))
       else
         rbind (idx (cp4_Tmax_slopes d) i) (\<lambda>Tmax_slope. rbind (idx (cp5_Tmax_values d) i) (\<lambda>v.
           (let x1 = v - Tmax_slope * Tmax;
                H = t * (0.5 * Tmax_slope * t + x1) - Tmax * (0.5 * Tmax_slope * Tmax + x1)
            in rbind (idx (cp8_int_Tmax_offsets d) i) (\<lambda>off.
               rbind (idx (cp11_int_T_ref d) i) (\<lambda>r. Inr (H + off - r))))))))"

definition Cp_integrals_pure_fast :: "cp_table option \<Rightarrow> ('a phase_scheme, real list) meth" where
  "Cp_integrals_pure_fast Cps_data =
     bnd (getattr T) (\<lambda>t. bnd (getattr cmps) (\<lambda>cs.
     bnd (lift (not_None Cps_data)) (\<lambda>d.
       lift (mapE (Cp_integral_fast_i d t) cs))))"

text \<open>\<^verbatim>\<open>Phase._Cp_integrals_over_T_pure_fast\<close>.\<close>

definition Cp_integral_over_T_fast_i :: "cp_table \<Rightarrow> real \<Rightarrow> real \<Rightarrow> nat \<Rightarrow> error + real" where
  "Cp_integral_over_T_fast_i d t logT i =
     rbind (idx (cp0_Tmins d) i) (\<lambda>Tmin.
     if t < Tmin then
       rbind (idx (cp2_Tmin_values d) i) (\<lambda>v. rbind (idx (cp1_Tmin_slopes d) i) (\<lambda>s.
         (let x1 = v - s * Tmin; S = s * t + x1 * logT
          in rbind (idx (cp15_logint_T_ref d) i) (\<lambda>r. Inr (S - r)))))
     else
       rbind (idx (cp3_Tmaxes d) i) (\<lambda>Tmax.
       if Tmin \<le> t \<and> t \<le> Tmax then
         rbind (idx (cp14_T_int_T_coeffs d) i) (\<lambda>cs. rbind (idx (cp6_log_coeffs d) i) (\<lambda>lc.
         rbind (idx (cp9_logint_Tmin_offsets d) i) (\<lambda>off.
           (let S = horner cs t + lc * logT - off
            in rbind (idx (cp15_logint_T_ref d) i) (\<lambda>r. Inr (S - r))))))
       else
         rbind (idx (cp10_logint_Tmax_offsets d) i) (\<lambda>off.
         rbind (idx (cp5_Tmax_values d) i) (\<lambda>v. rbind (idx (cp4_Tmax_slopes d) i) (\<lambda>s.
           (let x2 = v - Tmax * s; S = off + (- s * (Tmax - t) + x2 * logT)
            in rbind (idx (cp15_logint_T_ref d) i) (\<lambda>r. Inr (S - r))))))))"

definition Cp_integrals_over_T_pure_fast ::
  "cp_table option \<Rightarrow> ('a phase_scheme, real list) meth" where
  "Cp_integrals_over_T_pure_fast Cps_data =
     bnd (getattr T) (\<lambda>t. bnd (getattr cmps) (\<lambda>cs.
     bnd (lift (not_None Cps_data)) (\<lambda>d.
     bnd (lift (log_py t)) (\<lambda>logT.
       lift (mapE (Cp_integral_over_T_fast_i d t logT) cs)))))"

text \<open>\<^verbatim>\<open>Phase.Cpig_integrals_pure\<close> and \<^verbatim>\<open>Phase.Cpig_integrals_over_T_pure\<close>: the fast
  path when \<^verbatim>\<open>Cpgs_locked\<close>, else one call per correlation object.\<close>

definition Cpig_integrals_pure :: "('a phase_scheme, real list) meth" where
  "Cpig_integrals_pure =
     cached_l ''_Cpig_integrals_pure''
       (bnd (gets Cpgs_locked) (\<lambda>lk.
        if lk then bnd (gets Cpgs_data) Cp_integrals_pure_fast
        else bnd (getattr T) (\<lambda>t. bnd (gets HeatCapacityGases) (\<lambda>hcg.
             bnd (lift (not_None hcg)) (\<lambda>objs.
               lift (mapE (\<lambda>obj. T_dependent_property_integral obj T_REF_IG t) objs))))))"

definition Cpig_integrals_over_T_pure :: "('a phase_scheme, real list) meth" where
  "Cpig_integrals_over_T_pure =
     cached_l ''_Cpig_integrals_over_T_pure''
       (bnd (gets Cpgs_locked) (\<lambda>lk.
        if lk then bnd (gets Cpgs_data) Cp_integrals_over_T_pure_fast
        else bnd (getattr T) (\<lambda>t. bnd (gets HeatCapacityGases) (\<lambda>hcg.
             bnd (lift (not_None hcg)) (\<lambda>objs.
               lift (mapE (\<lambda>obj. T_dependent_property_integral_over_T obj T_REF_IG t) objs))))))"

text \<open>\<^verbatim>\<open>Phase.H_ideal_gas\<close> and \<^verbatim>\<open>Phase.S_ideal_gas\<close>.\<close>

definition H_ideal_gas :: "('a phase_scheme, real) meth" where
  "H_ideal_gas =
     cached_f ''_H_ideal_gas''
       (bnd (getattr zs) (\<lambda>z. bnd Cpig_integrals_pure (\<lambda>ints.
          ret (foldl (\<lambda>H (zi, Cp_int). H + zi * Cp_int) 0 (zip z ints)))))"

definition S_ideal_gas :: "('a phase_scheme, real) meth" where
  "S_ideal_gas =
     cached_f ''_S_ideal_gas''
       (bnd Cpig_integrals_over_T_pure (\<lambda>ints. bnd log_zs (\<lambda>lz.
        bnd (getattr T) (\<lambda>t. bnd (getattr P) (\<lambda>p. bnd (getattr zs) (\<lambda>z.
        bnd (getattr cmps) (\<lambda>cs.
        bnd (lift (mapE (\<lambda>i. rbind (idx z i) (\<lambda>zi. rbind (idx lz i) (\<lambda>l. Inr (zi * l)))) cs))
          (\<lambda>terms.
        bnd (lift (log_py (p * P_REF_IG_INV))) (\<lambda>lp.
        lift (loopE (\<lambda>i S. rbind (idx z i) (\<lambda>zi. rbind (idx ints i) (\<lambda>c. Inr (S + zi * c))))
                cs (0 - R * sum_list terms - R * lp)))))))))))"

text \<open>\<^verbatim>\<open>Phase._Cp_pure_fast\<close>, the loop body for component \<open>i\<close>: the three-piece value
  function whose integral \<^verbatim>\<open>_Cp_integrals_pure_fast\<close> evaluates.\<close>

definition Cp_pure_fast_i :: "cp_table \<Rightarrow> real \<Rightarrow> nat \<Rightarrow> error + real" where
  "Cp_pure_fast_i d t i =
     rbind (idx (cp0_Tmins d) i) (\<lambda>Tmin.
     if t < Tmin then
       rbind (idx (cp1_Tmin_slopes d) i) (\<lambda>s. rbind (idx (cp2_Tmin_values d) i) (\<lambda>v.
         Inr ((t - Tmin) * s + v)))
     else
       rbind (idx (cp3_Tmaxes d) i) (\<lambda>Tmax.
       if t > Tmax then
         rbind (idx (cp4_Tmax_slopes d) i) (\<lambda>s. rbind (idx (cp5_Tmax_values d) i) (\<lambda>v.
           Inr ((t - Tmax) * s + v)))
       else rbind (idx (cp12_coeffs d) i) (\<lambda>cs. Inr (horner cs t))))"

text \<open>Modelled from the spec: \<^verbatim>\<open>fluids.numerics.best_fit_integral_value\<close>, whose result at
  \<^verbatim>\<open>T_REF_IG\<close> \<^verbatim>\<open>setup_Cpigs\<close> stores in \<^verbatim>\<open>Cps_data[11]\<close>. It is the closed-form
  integral of the three-piece function: below \<open>Tmin\<close> the antiderivative of the linear
  extrapolation, inside the fit range that value at \<open>Tmin\<close> plus the difference of the
  polynomial antiderivative, above \<open>Tmax\<close> that value at \<open>Tmax\<close> plus the integral of
  the upper linear extrapolation. The commented-out block at the head of the loop of
  \<^verbatim>\<open>_Cp_integrals_pure_fast\<close> is this formula (\<^verbatim>\<open>H = tot + tot1 + tot2\<close>).\<close>

definition piecewise_integral_value ::
  "real \<Rightarrow> real list \<Rightarrow> real \<Rightarrow> real \<Rightarrow> real \<Rightarrow> real \<Rightarrow> real \<Rightarrow> real \<Rightarrow> real" where
  "piecewise_integral_value t int_coeffs T_min T_max Tmin_value Tmax_value Tmin_slope Tmax_slope =
     (if t < T_min then
        (let x1 = Tmin_value - Tmin_slope * T_min in t * (0.5 * Tmin_slope * t + x1))
      else if t \<le> T_max then
        (let tot1 = horner int_coeffs t - horner int_coeffs T_min;
             x1 = Tmin_value - Tmin_slope * T_min;
             tot = T_min * (0.5 * Tmin_slope * T_min + x1)
         in tot + tot1)
      else
        (let x1 = Tmin_value - Tmin_slope * T_min;
             tot = T_min * (0.5 * Tmin_slope * T_min + x1);
             tot1 = horner int_coeffs T_max - horner int_coeffs T_min;
             x2 = Tmax_value - Tmax_slope * T_max;
             tot2 = t * (0.5 * Tmax_slope * t + x2) - T_max * (0.5 * Tmax_slope * T_max + x2)
         in tot + tot1 + tot2))"

text \<open>The closed-form integral and the value function of one correlation object.\<close>

definition corr_integral :: "corr \<Rightarrow> real \<Rightarrow> real" where
  "corr_integral obj t =
     piecewise_integral_value t (best_fit_int_coeffs obj) (best_fit_Tmin obj) (best_fit_Tmax obj)
       (best_fit_Tmin_value obj) (best_fit_Tmax_value obj)
       (best_fit_Tmin_slope obj) (best_fit_Tmax_slope obj)"

definition corr_value :: "corr \<Rightarrow> real \<Rightarrow> real" where
  "corr_value obj t =
     (if t < best_fit_Tmin obj then (t - best_fit_Tmin obj) * best_fit_Tmin_slope obj
                                     + best_fit_Tmin_value obj
      else if t > best_fit_Tmax obj then (t - best_fit_Tmax obj) * best_fit_Tmax_slope obj
                                          + best_fit_Tmax_value obj
      else horner (best_fit_coeffs obj) t)"

text \<open>Example: a locked heat capacity \<open>Cp(T) = 2 T + 3\<close> on \<open>[200, 1000]\<close> with its
  antiderivative \<open>T\<^sup>2 + 3 T\<close>, extrapolated linearly with the end slopes and values, and
  numerics whose \<^verbatim>\<open>best_fit_integral_value\<close> is the closed form above.\<close>

definition ex_corr :: corr where
  "ex_corr =
     \<lparr>locked = True, best_fit_Tmin = 200, best_fit_Tmin_slope = 2, best_fit_Tmin_value = 403,
      best_fit_Tmax = 1000, best_fit_Tmax_slope = 2, best_fit_Tmax_value = 2003,
      best_fit_log_coeff = 3, best_fit_coeffs = [2, 3], best_fit_int_coeffs = [1, 3, 0],
      best_fit_T_int_T_coeffs = [2, 0], best_fit_d_coeffs = [2], best_fit_d2_coeffs = [0],
      best_fit_Tc = 2000, Tmax = 1000,
      call = (\<lambda>t. Inr (Some (2 * t + 3))), extrapolate_tabular = (\<lambda>t. Inr (2 * t + 3)),
      T_dependent_property = (\<lambda>t. Inr (2 * t + 3)),
      T_dependent_property_derivative = (\<lambda>t n. Inr (if n = 1 then 2 else 0)),
      T_dependent_property_integral = (\<lambda>a b. Inr ((b * b + 3 * b) - (a * a + 3 * a))),
      T_dependent_property_integral_over_T = (\<lambda>a b. Inl ValueError)\<rparr>"

definition ex_numerics :: numerics where
  "ex_numerics =
     \<lparr>best_fit_integral_value = (\<lambda>t ic Tmin Tmax vmin vmax smin smax.
        Inr (piecewise_integral_value t ic Tmin Tmax vmin vmax smin smax)),
      best_fit_integral_over_T_value = (\<lambda>t c lc Tmin Tmax vmin vmax smin smax. Inr 0),
      horner_log = (\<lambda>c lc x. Inr 0),
      evaluate_linear_fits = (\<lambda>d t. Inl TypeError),
      evaluate_linear_fits_d = (\<lambda>d t. Inl TypeError),
      evaluate_linear_fits_d2 = (\<lambda>d t. Inl TypeError)\<rparr>"

section \<open>GibbsExcessLiquid\<close>

text \<open>The activity-coefficient model object, of another module: its excess enthalpy and
  entropy and its state transform \<^verbatim>\<open>to_T_xs(T, xs)\<close>, which return or raise.\<close>

datatype ge_model = GEModel
  (ge_HE: "error + real") (ge_SE: "error + real") (ge_CpE: "error + real")
  (to_T_xs: "real \<Rightarrow> real list \<Rightarrow> error + ge_model")

text \<open>The attributes of a \<^verbatim>\<open>GibbsExcessLiquid\<close>. A correlation list given as \<^verbatim>\<open>None\<close>
  is \<open>None\<close>. \<open>Hvaps_T_ref_inst\<close> is the instance attribute \<^verbatim>\<open>Hvaps_T_ref\<close> that
  \<^verbatim>\<open>__init__\<close> assigns when \<^verbatim>\<open>HeatCapacityLiquids\<close> is given; it hides the method of
  the same name, and \<^verbatim>\<open>to_TP_zs\<close> does not copy it. An entry of \<^verbatim>\<open>henry_data[i]\<close> that
  is \<^verbatim>\<open>None\<close> or empty is the empty list.\<close>

record gel = phase +
  VaporPressures :: "corr list"
  VolumeLiquids :: "corr list option"
  eos_pure_instances :: "eos_mix list option"
  EnthalpyVaporizations :: "corr list option"
  HeatCapacityLiquids :: "corr list option"
  Psats_locked :: bool
  Psats_data :: "fit_table option"
  Cpls_locked :: bool
  Cpls_data :: "cp_table option"
  Vms_sat_locked :: bool
  Vms_sat_data :: "fit_table option"
  Hvap_locked :: bool
  Hvap_data :: "hvap_table option"
  use_phis_sat :: bool
  use_Poynting :: bool
  P_DEPENDENT_H_LIQ :: bool
  use_IG_Cp :: bool
  henry_data :: "real list list list option"
  henry_components :: "bool list"
  has_henry_components :: bool
  use_Tait :: bool
  Tait_B_data :: "fit_table option"
  Tait_C_data :: "fit_table option"
  GibbsExcessModel :: ge_model
  Hvaps_T_ref_inst :: "real list option"

text \<open>\<^verbatim>\<open>GibbsExcessLiquid.to_TP_zs(T, P, zs)\<close>. \<open>zs_is\<close> tells whether the argument is
  the very list object \<^verbatim>\<open>self.zs\<close> (the test \<^verbatim>\<open>self.zs is zs\<close>). The statement
  \<^verbatim>\<open>1/0\<close> raises before \<^verbatim>\<open>new._Psats = self._Psats\<close>, inside a \<^verbatim>\<open>try\<close> whose handler
  passes.\<close>

definition GEL_copy_Psats :: "gel \<Rightarrow> bool \<Rightarrow> real list option" where
  "GEL_copy_Psats self T_equal =
     (if T_equal then
        (case fdiv 1 0 of Inl e \<Rightarrow> None | Inr q \<Rightarrow> lcache self ''_Psats'')
      else None)"

definition GEL_to_TP_zs :: "real \<Rightarrow> real \<Rightarrow> real list \<Rightarrow> bool \<Rightarrow> (gel, gel) meth" where
  "GEL_to_TP_zs t p z zs_is self =
     (let T_equal = (T self \<noteq> None \<and> Some t = T self) in
      rbind (attr (N self)) (\<lambda>n. rbind (attr (cmps self)) (\<lambda>cs.
      rbind (if T_equal then rbind (attr (zs self)) (\<lambda>z0.
                 if zs_is then Inr (GibbsExcessModel self)
                 else to_T_xs (GibbsExcessModel self) t z)
             else to_T_xs (GibbsExcessModel self) t z) (\<lambda>ge.
      Inr (\<lparr>T = Some t, P = Some p, zs = Some z, N = Some n, cmps = Some cs,
            HeatCapacityGases = HeatCapacityGases self,
            Cpgs_locked = Cpgs_locked self, Cpgs_data = Cpgs_data self,
            Hfs = Hfs self, Gfs = Gfs self, Sfs = Sfs self,
            fcache = Map.empty,
            lcache = (case GEL_copy_Psats self T_equal of None \<Rightarrow> Map.empty
                      | Some ps \<Rightarrow> [''_Psats'' \<mapsto> ps]),
            VaporPressures = VaporPressures self, VolumeLiquids = VolumeLiquids self,
            eos_pure_instances = eos_pure_instances self,
            EnthalpyVaporizations = EnthalpyVaporizations self,
            HeatCapacityLiquids = HeatCapacityLiquids self,
            Psats_locked = Psats_locked self, Psats_data = Psats_data self,
            Cpls_locked = Cpls_locked self, Cpls_data = Cpls_data self,
            Vms_sat_locked = Vms_sat_locked self, Vms_sat_data = Vms_sat_data self,
            Hvap_locked = Hvap_locked self, Hvap_data = Hvap_data self,
            use_phis_sat = use_phis_sat self, use_Poynting = use_Poynting self,
            P_DEPENDENT_H_LIQ = P_DEPENDENT_H_LIQ self, use_IG_Cp = use_IG_Cp self,
            henry_data = henry_data self, henry_components = henry_components self,
            has_henry_components = has_henry_components self,
            use_Tait = use_Tait self,
            Tait_B_data = Tait_B_data self, Tait_C_data = Tait_C_data self,
            GibbsExcessModel = ge, Hvaps_T_ref_inst = None\<rparr>, self)))))"

text \<open>\<^verbatim>\<open>Cpl_integrals_pure\<close> and \<^verbatim>\<open>Cpl_integrals_over_T_pure\<close> of \<^verbatim>\<open>Phase\<close>, which
  read the liquid heat-capacity attributes.\<close>

definition Cpl_integrals_pure :: "(gel, real list) meth" where
  "Cpl_integrals_pure =
     cached_l ''_Cpl_integrals_pure''
       (bnd (gets Cpls_locked) (\<lambda>lk.
        if lk then bnd (gets Cpls_data) Cp_integrals_pure_fast
        else bnd (getattr T) (\<lambda>t. bnd (gets HeatCapacityLiquids) (\<lambda>hcl.
             bnd (lift (not_None hcl)) (\<lambda>objs.
               lift (mapE (\<lambda>obj. T_dependent_property_integral obj T_REF_IG t) objs))))))"

definition Cpl_integrals_over_T_pure :: "(gel, real list) meth" where
  "Cpl_integrals_over_T_pure =
     cached_l ''_Cpl_integrals_over_T_pure''
       (bnd (gets Cpls_locked) (\<lambda>lk.
        if lk then bnd (gets Cpls_data) Cp_integrals_over_T_pure_fast
        else bnd (getattr T) (\<lambda>t. bnd (gets HeatCapacityLiquids) (\<lambda>hcl.
             bnd (lift (not_None hcl)) (\<lambda>objs.
               lift (mapE (\<lambda>obj. T_dependent_property_integral_over_T obj T_REF_IG t) objs))))))"

text \<open>\<^verbatim>\<open>Psats_T_ref\<close>.\<close>

definition GEL_Psats_T_ref :: "(gel, real list) meth" where
  "GEL_Psats_T_ref =
     cached_l ''_Psats_T_ref''
       (bnd (gets VaporPressures) (\<lambda>vps. bnd (getattr cmps) (\<lambda>cs.
          lift (mapE (\<lambda>i. rbind (idx vps i) (\<lambda>obj. call_float obj T_REF_IG)) cs))))"

text \<open>\<^verbatim>\<open>Psats\<close>: the locked loop body for component \<open>i\<close>; the loop body for one vapor
  pressure object when not locked (the assignment \<^verbatim>\<open>i.method = None\<close> changes the
  correlation object only); and the replacement of the entries of the Henry components.\<close>

definition Psat_locked_i :: "fit_table \<Rightarrow> real \<Rightarrow> nat \<Rightarrow> error + real" where
  "Psat_locked_i d t i =
     rbind (idx (ft0_Tmins d) i) (\<lambda>Tmin.
     if t < Tmin then
       rbind (idx (ft1_Tmin_slopes d) i) (\<lambda>s. rbind (idx (ft2_Tmin_values d) i) (\<lambda>v.
         Inr (exp ((t - Tmin) * s + v))))
     else
       rbind (idx (ft3_Tmaxes d) i) (\<lambda>Tmax.
       if t > Tmax then
         rbind (idx (ft4_Tmax_slopes d) i) (\<lambda>s. rbind (idx (ft5_Tmax_values d) i) (\<lambda>v.
           Inr (exp ((t - Tmax) * s + v))))
       else rbind (idx (ft6_coeffs d) i) (\<lambda>cs. Inr (exp (horner cs t)))))"

definition Psat_obj :: "corr \<Rightarrow> real \<Rightarrow> error + real" where
  "Psat_obj i t =
     (if locked i then call_float i t
      else if t < Tmax i then
        rbind (call i t) (\<lambda>Psat.
          case Psat of None \<Rightarrow> extrapolate_tabular i t | Some v \<Rightarrow> Inr v)
      else extrapolate_tabular i t)"

definition Vcs :: "real list" where
  "Vcs = [5.6000000000000006 / 100000, 0.000168, 7.340000000000001 / 100000]"

definition henry_weight_sum :: "real list list \<Rightarrow> real list \<Rightarrow> nat list \<Rightarrow> error + real" where
  "henry_weight_sum d z cs =
     rbind (mapE (\<lambda>k. rbind (idx d k) (\<lambda>dk.
                    if dk \<noteq> [] then
                      rbind (idx z k) (\<lambda>zk. rbind (idx Vcs k) (\<lambda>vk. Inr (zk * vk powr (2 / 3))))
                    else Inr 0)) cs)
       (\<lambda>ws. Inr (sum_list ws))"

definition henry_logH :: "real list list \<Rightarrow> real list \<Rightarrow> real \<Rightarrow> nat list \<Rightarrow> error + real" where
  "henry_logH d z t cs =
     loopE (\<lambda>j logH.
       rbind (idx d j) (\<lambda>r.
         if r \<noteq> [] then
           rbind (idx r 0) (\<lambda>r0. rbind (idx r 1) (\<lambda>r1. rbind (fdiv r1 t) (\<lambda>q1.
           rbind (idx r 2) (\<lambda>r2. rbind (log_py t) (\<lambda>lt. rbind (idx r 3) (\<lambda>r3.
           rbind (idx r 4) (\<lambda>r4. rbind (fdiv r4 (t * t)) (\<lambda>q4.
           (let log_Hi = r0 + q1 + r2 * lt + r3 * t + q4 in
            rbind (idx z j) (\<lambda>zj. rbind (idx Vcs j) (\<lambda>vj.
            rbind (henry_weight_sum d z cs) (\<lambda>tot.
            rbind (fdiv (zj * vj powr (2 / 3)) tot) (\<lambda>wi.
              Inr (logH + wi * log_Hi))))))))))))))
         else Inr logH)) cs 0"

definition henry_replace ::
  "bool list \<Rightarrow> real list list list option \<Rightarrow> real list \<Rightarrow> real \<Rightarrow> nat list \<Rightarrow>
   real list \<Rightarrow> error + real list" where
  "henry_replace hc hdat z t cs Psats =
     loopE (\<lambda>i Ps.
       rbind (idx hc i) (\<lambda>hci.
         if hci then
           rbind (not_None hdat) (\<lambda>hdl. rbind (idx hdl i) (\<lambda>d.
           rbind (henry_logH d z t cs) (\<lambda>logH.
             if i < length Ps then Inr (Ps[i := exp (logH / 1) * 100000])
             else Inl IndexError)))
         else Inr Ps)) cs Psats"

definition GEL_Psats :: "(gel, real list) meth" where
  "GEL_Psats =
     cached_l ''_Psats''
       (bnd (getattr T) (\<lambda>t. bnd (getattr cmps) (\<lambda>cs.
        bnd (gets Psats_locked) (\<lambda>lk.
        if lk then
          bnd (gets Psats_data) (\<lambda>pd. bnd (lift (not_None pd)) (\<lambda>d.
            lift (mapE (Psat_locked_i d t) cs)))
        else
          bnd (gets VaporPressures) (\<lambda>vps.
          bnd (lift (mapE (\<lambda>i. Psat_obj i t) vps)) (\<lambda>Psats.
          bnd (gets has_henry_components) (\<lambda>hh.
          if hh then
            bnd (gets henry_components) (\<lambda>hc. bnd (gets henry_data) (\<lambda>hd.
            bnd (getattr cmps) (\<lambda>cs'. bnd (getattr zs) (\<lambda>z.
              lift (henry_replace hc hd z t cs' Psats)))))
          else ret Psats)))))))"

text \<open>\<^verbatim>\<open>dPsats_dT\<close>.\<close>

definition dPsat_locked_i :: "fit_table \<Rightarrow> real list \<Rightarrow> real \<Rightarrow> nat \<Rightarrow> error + real" where
  "dPsat_locked_i d Psats t i =
     rbind (idx (ft0_Tmins d) i) (\<lambda>Tmin.
     if t < Tmin then
       rbind (idx (ft1_Tmin_slopes d) i) (\<lambda>s. rbind (idx Psats i) (\<lambda>ps. Inr (s * ps)))
     else
       rbind (idx (ft3_Tmaxes d) i) (\<lambda>Tmax.
       if t > Tmax then
         rbind (idx (ft4_Tmax_slopes d) i) (\<lambda>s. rbind (idx Psats i) (\<lambda>ps. Inr (s * ps)))
       else
         rbind (idx (ft7_d_coeffs d) i) (\<lambda>cs. rbind (idx Psats i) (\<lambda>ps.
           Inr (horner cs t * ps)))))"

definition GEL_dPsats_dT :: "(gel, real list) meth" where
  "GEL_dPsats_dT =
     cached_l ''_dPsats_dT''
       (bnd (getattr T) (\<lambda>t. bnd (getattr cmps) (\<lambda>cs.
        bnd (gets Psats_locked) (\<lambda>lk.
        if lk then
          bnd GEL_Psats (\<lambda>Psats.
          bnd (gets Psats_data) (\<lambda>pd. bnd (lift (not_None pd)) (\<lambda>d.
            lift (mapE (dPsat_locked_i d Psats t) cs))))
        else
          bnd (gets VaporPressures) (\<lambda>vps.
            lift (mapE (\<lambda>obj. T_dependent_property_derivative obj t 1) vps))))))"

text \<open>The saturated liquid volumes and their temperature derivatives, at \<^verbatim>\<open>T\<close> and at
  \<^verbatim>\<open>T_REF_IG\<close>. In the locked branch of \<^verbatim>\<open>dVms_sat_dT_T_ref\<close> the source evaluates
  \<^verbatim>\<open>evaluate_linear_fits_d(self.Vms_sat_data, T)\<close>; the function has no local \<^verbatim>\<open>T\<close>
  (its locals are \<^verbatim>\<open>self\<close> and \<^verbatim>\<open>T_REF_IG\<close>) and the module has no global \<^verbatim>\<open>T\<close>, so
  evaluating the argument raises \<^verbatim>\<open>NameError\<close> before the call.\<close>

definition GEL_Vms_sat :: "numerics \<Rightarrow> (gel, real list) meth" where
  "GEL_Vms_sat nm =
     cached_l ''_Vms_sat''
       (bnd (getattr T) (\<lambda>t. bnd (getattr cmps) (\<lambda>cs.
        bnd (gets Vms_sat_locked) (\<lambda>lk.
        if lk then bnd (gets Vms_sat_data) (\<lambda>d. lift (evaluate_linear_fits nm d t))
        else
          bnd (gets VolumeLiquids) (\<lambda>vl.
            lift (mapE (\<lambda>i. rbind (not_None vl) (\<lambda>objs. rbind (idx objs i) (\<lambda>obj.
                    T_dependent_property obj t))) cs))))))"

definition GEL_dVms_sat_dT :: "numerics \<Rightarrow> (gel, real list) meth" where
  "GEL_dVms_sat_dT nm =
     cached_l ''_Vms_sat_dT''
       (bnd (getattr T) (\<lambda>t.
        bnd (gets Vms_sat_locked) (\<lambda>lk.
        if lk then bnd (gets Vms_sat_data) (\<lambda>d. lift (evaluate_linear_fits_d nm d t))
        else
          bnd (gets VolumeLiquids) (\<lambda>vl. bnd (lift (not_None vl)) (\<lambda>objs.
            lift (mapE (\<lambda>obj. T_dependent_property_derivative obj t 1) objs))))))"

definition GEL_Vms_sat_T_ref :: "numerics \<Rightarrow> (gel, real list) meth" where
  "GEL_Vms_sat_T_ref nm =
     cached_l ''_Vms_sat_T_ref''
       (bnd (gets Vms_sat_locked) (\<lambda>lk.
        if lk then bnd (gets Vms_sat_data) (\<lambda>d. lift (evaluate_linear_fits nm d T_REF_IG))
        else
          bnd (gets VolumeLiquids) (\<lambda>vl. bnd (getattr cmps) (\<lambda>cs.
            lift (mapE (\<lambda>i. rbind (not_None vl) (\<lambda>objs. rbind (idx objs i) (\<lambda>obj.
                    T_dependent_property obj T_REF_IG))) cs)))))"

definition GEL_dVms_sat_dT_T_ref :: "numerics \<Rightarrow> (gel, real list) meth" where
  "GEL_dVms_sat_dT_T_ref nm =
     cached_l ''_dVms_sat_dT_T_ref''
       (bnd (gets Vms_sat_locked) (\<lambda>lk.
        if lk then bnd (gets Vms_sat_data) (\<lambda>d. raise NameError)
        else
          bnd (gets VolumeLiquids) (\<lambda>vl. bnd (getattr cmps) (\<lambda>cs.
            lift (mapE (\<lambda>i. rbind (not_None vl) (\<lambda>objs. rbind (idx objs i) (\<lambda>obj.
                    T_dependent_property_derivative obj T_REF_IG 1))) cs)))))"

text \<open>\<^verbatim>\<open>Hvaps\<close> and \<^verbatim>\<open>Hvaps_T_ref\<close>. A \<^verbatim>\<open>None\<close> returned by an enthalpy of
  vaporization object becomes \<open>0.0\<close> in \<^verbatim>\<open>Hvaps\<close>. Calling \<^verbatim>\<open>self.Hvaps_T_ref()\<close> on
  an object that has the instance attribute of that name calls a list.\<close>

definition Hvap_locked_i :: "hvap_table \<Rightarrow> real \<Rightarrow> nat \<Rightarrow> error + real" where
  "Hvap_locked_i d t i =
     rbind (idx (hv2_Tcs d) i) (\<lambda>Tc.
     if t < Tc then
       rbind (idx (hv3_Tcs_inv d) i) (\<lambda>Tc_inv. rbind (log_py (1.0 - t * Tc_inv)) (\<lambda>x.
       rbind (idx (hv4_coeffs d) i) (\<lambda>cs. Inr (horner cs x))))
     else Inr 0)"

definition GEL_Hvaps :: "(gel, real list) meth" where
  "GEL_Hvaps =
     cached_l ''_Hvaps''
       (bnd (getattr T) (\<lambda>t. bnd (gets EnthalpyVaporizations) (\<lambda>ev. bnd (getattr cmps) (\<lambda>cs.
        bnd (gets Hvap_locked) (\<lambda>lk.
        if lk then
          bnd (gets Hvap_data) (\<lambda>hd. bnd (lift (not_None hd)) (\<lambda>d.
            lift (mapE (Hvap_locked_i d t) cs)))
        else
          lift (mapE (\<lambda>i. rbind (not_None ev) (\<lambda>objs. rbind (idx objs i) (\<lambda>obj.
                  rbind (call obj t) (\<lambda>h. Inr (case h of None \<Rightarrow> 0 | Some v \<Rightarrow> v))))) cs))))))"

definition GEL_Hvaps_T_ref :: "(gel, real list) meth" where
  "GEL_Hvaps_T_ref =
     bnd (gets Hvaps_T_ref_inst) (\<lambda>inst.
     if inst \<noteq> None then raise TypeError
     else
       cached_l ''_Hvaps_T_ref''
         (bnd (gets EnthalpyVaporizations) (\<lambda>ev. bnd (getattr cmps) (\<lambda>cs.
            lift (mapE (\<lambda>i. rbind (not_None ev) (\<lambda>objs. rbind (idx objs i) (\<lambda>obj.
                    call_float obj T_REF_IG))) cs)))))"

text \<open>The Tait parameters and \<^verbatim>\<open>dH_dP_integrals_Tait\<close>.\<close>

definition GEL_Tait_Bs :: "numerics \<Rightarrow> (gel, real list) meth" where
  "GEL_Tait_Bs nm =
     cached_l ''_Tait_Bs''
       (bnd (gets Tait_B_data) (\<lambda>d. bnd (getattr T) (\<lambda>t. lift (evaluate_linear_fits nm d t))))"

definition GEL_dTait_B_dTs :: "numerics \<Rightarrow> (gel, real list) meth" where
  "GEL_dTait_B_dTs nm =
     cached_l ''_dTait_B_dTs''
       (bnd (gets Tait_B_data) (\<lambda>d. bnd (getattr T) (\<lambda>t. lift (evaluate_linear_fits_d nm d t))))"

definition GEL_Tait_Cs :: "numerics \<Rightarrow> (gel, real list) meth" where
  "GEL_Tait_Cs nm =
     cached_l ''_Tait_Cs''
       (bnd (gets Tait_C_data) (\<lambda>d. bnd (getattr T) (\<lambda>t. lift (evaluate_linear_fits nm d t))))"

definition GEL_dTait_C_dTs :: "numerics \<Rightarrow> (gel, real list) meth" where
  "GEL_dTait_C_dTs nm =
     cached_l ''_dTait_C_dTs''
       (bnd (gets Tait_C_data) (\<lambda>d. bnd (getattr T) (\<lambda>t. lift (evaluate_linear_fits_d nm d t))))"

definition dH_dP_integral_Tait_i ::
  "real \<Rightarrow> real \<Rightarrow> real list \<Rightarrow> real list \<Rightarrow> real list \<Rightarrow> real list \<Rightarrow>
   real list \<Rightarrow> real list \<Rightarrow> real list \<Rightarrow> real list \<Rightarrow> nat \<Rightarrow> error + real" where
  "dH_dP_integral_Tait_i t p Psats Vms_sat dVms_sat_dT dPsats_dT Tait_Bs Tait_Cs dTait_C_dTs
     dTait_B_dTs i =
     rbind (idx Tait_Bs i) (\<lambda>x0.
     (let x1 = p + x0 in
     rbind (idx Psats i) (\<lambda>x2.
     (let x3 = x0 + x2 in
     rbind (fdiv 1.0 x3) (\<lambda>x4.
     rbind (idx Tait_Cs i) (\<lambda>x5.
     rbind (idx Vms_sat i) (\<lambda>x6.
     (let x7 = x5 * x6 in
     rbind (idx dVms_sat_dT i) (\<lambda>dv.
     (let x8 = t * dv; x9 = x5 * x8 in
     rbind (idx dTait_C_dTs i) (\<lambda>dc.
     (let x10 = t * dc; x11 = x0 * x6; x12 = t * x7 in
     rbind (idx dTait_B_dTs i) (\<lambda>db.
     (let x13 = - x0 * x7 + x0 * x9 + x10 * x11 + x12 * db; x14 = x2 * x6 in
     rbind (idx dPsats_dT i) (\<lambda>dps.
     (let x15 = x4 * (x0 * x8 + x10 * x14 - x11 + x12 * dps + x13 - x14 - x2 * x7 + x2 * x8
                      + x2 * x9) in
     rbind (log_py (x1 * x4)) (\<lambda>l14.
     rbind (log_py x1) (\<lambda>l1.
     rbind (log_py x3) (\<lambda>l3.
       Inr (- p * x15 + p * (x10 * x6 - x7 + x9) * l14 + x13 * l1 - x13 * l3
            + x15 * x2))))))))))))))))))))"

definition GEL_dH_dP_integrals_Tait :: "numerics \<Rightarrow> (gel, real list) meth" where
  "GEL_dH_dP_integrals_Tait nm =
     cached_l ''_dH_dP_integrals_Tait''
       (bnd GEL_Psats (\<lambda>Psats. bnd (GEL_Vms_sat nm) (\<lambda>Vms_sat.
        bnd (GEL_dVms_sat_dT nm) (\<lambda>dVms_sat_dT. bnd GEL_dPsats_dT (\<lambda>dPsats_dT.
        bnd (GEL_Tait_Bs nm) (\<lambda>Tait_Bs. bnd (GEL_Tait_Cs nm) (\<lambda>Tait_Cs.
        bnd (GEL_dTait_C_dTs nm) (\<lambda>dTait_C_dTs. bnd (GEL_dTait_B_dTs nm) (\<lambda>dTait_B_dTs.
        bnd (getattr T) (\<lambda>t. bnd (getattr P) (\<lambda>p. bnd (getattr zs) (\<lambda>z.
        bnd (getattr cmps) (\<lambda>cs.
          lift (mapE (dH_dP_integral_Tait_i t p Psats Vms_sat dVms_sat_dT dPsats_dT Tait_Bs
                        Tait_Cs dTait_C_dTs dTait_B_dTs) cs))))))))))))))"

text \<open>\<^verbatim>\<open>GibbsExcessLiquid.H\<close>. The three modes are chosen by \<^verbatim>\<open>P_DEPENDENT_H_LIQ\<close> and
  \<^verbatim>\<open>use_IG_Cp\<close>; the result is memoised and returned with the excess enthalpy added.
  First the loop bodies (for component \<open>i\<close>, updating \<open>H\<close>), then the branches.\<close>

definition H_IG_Cp_term ::
  "real \<Rightarrow> real list \<Rightarrow> real list \<Rightarrow> real list \<Rightarrow> real list \<Rightarrow> real list \<Rightarrow>
   nat \<Rightarrow> real \<Rightarrow> error + real" where
  "H_IG_Cp_term t z Cpig_ints Psats Vms_sat dPsats_dT i H =
     rbind (idx Psats i) (\<lambda>ps. rbind (fdiv (R * t) ps) (\<lambda>q.
     rbind (idx Vms_sat i) (\<lambda>vm.
     (let dV_vap = q - vm in
      rbind (idx dPsats_dT i) (\<lambda>dps.
      (let dS_vap = dps * dV_vap; Hvap = t * dS_vap in
       rbind (idx z i) (\<lambda>zi. rbind (idx Cpig_ints i) (\<lambda>c.
         Inr (H + zi * (c - Hvap))))))))))"

definition H_Tait_term :: "real list \<Rightarrow> real list \<Rightarrow> nat \<Rightarrow> real \<Rightarrow> error + real" where
  "H_Tait_term z dH i H = rbind (idx z i) (\<lambda>zi. rbind (idx dH i) (\<lambda>d. Inr (H + zi * d)))"

definition H_pressure_term ::
  "real \<Rightarrow> real \<Rightarrow> real list \<Rightarrow> real list \<Rightarrow> real list \<Rightarrow> real list \<Rightarrow>
   nat \<Rightarrow> real \<Rightarrow> error + real" where
  "H_pressure_term t p z Psats Vms_sat dVms_sat_dT i H =
     rbind (idx Psats i) (\<lambda>ps.
     (let dP = max 0.0 (p - ps) in
      rbind (idx z i) (\<lambda>zi. rbind (idx Vms_sat i) (\<lambda>vm. rbind (idx dVms_sat_dT i) (\<lambda>dv.
        Inr (H + zi * dP * (vm - t * dv)))))))"

definition H_liquid_Cp_term ::
  "real \<Rightarrow> real list \<Rightarrow> real list \<Rightarrow> real list \<Rightarrow> real list \<Rightarrow> real list \<Rightarrow>
   real list \<Rightarrow> nat \<Rightarrow> real \<Rightarrow> error + real" where
  "H_liquid_Cp_term p z Cpl_ints Hvaps_T_ref Psats_T_ref Vms_sat_T_ref dVms_sat_dT_T_ref i H =
     rbind (idx z i) (\<lambda>zi. rbind (idx Cpl_ints i) (\<lambda>c. rbind (idx Hvaps_T_ref i) (\<lambda>hv.
     (let H' = H + zi * (c - hv) in
      rbind (idx Psats_T_ref i) (\<lambda>psr.
      (let dP = p - psr in
       rbind (idx Vms_sat_T_ref i) (\<lambda>vmr. rbind (idx dVms_sat_dT_T_ref i) (\<lambda>dvr.
         Inr (H' + zi * dP * (vmr - T_REF_IG * dvr))))))))))"

definition H_no_P_term ::
  "real list \<Rightarrow> real list \<Rightarrow> real list \<Rightarrow> nat \<Rightarrow> real \<Rightarrow> error + real" where
  "H_no_P_term z Cpig_ints Hvaps i H =
     rbind (idx z i) (\<lambda>zi. rbind (idx Cpig_ints i) (\<lambda>c. rbind (idx Hvaps i) (\<lambda>hv.
       Inr (H + zi * (c - hv)))))"

definition GEL_H_IG_Cp ::
  "numerics \<Rightarrow> real \<Rightarrow> real \<Rightarrow> real list \<Rightarrow> real list \<Rightarrow> (gel, real) meth" where
  "GEL_H_IG_Cp nm t p z Cpig_ints =
     bnd GEL_Psats (\<lambda>Psats. bnd (GEL_Vms_sat nm) (\<lambda>Vms_sat.
     bnd (GEL_dVms_sat_dT nm) (\<lambda>dVms_sat_dT. bnd GEL_dPsats_dT (\<lambda>dPsats_dT.
     bnd (getattr cmps) (\<lambda>cs.
     bnd (lift (loopE (H_IG_Cp_term t z Cpig_ints Psats Vms_sat dPsats_dT) cs 0)) (\<lambda>H1.
     bnd (gets use_Tait) (\<lambda>tait.
     if tait then
       bnd (GEL_dH_dP_integrals_Tait nm) (\<lambda>dH. bnd (getattr cmps) (\<lambda>cs'.
         lift (loopE (H_Tait_term z dH) cs' H1)))
     else
       bnd (getattr cmps) (\<lambda>cs'.
         lift (loopE (H_pressure_term t p z Psats Vms_sat dVms_sat_dT) cs' H1)))))))))"

definition GEL_H_liquid_Cp ::
  "numerics \<Rightarrow> real \<Rightarrow> real list \<Rightarrow> (gel, real) meth" where
  "GEL_H_liquid_Cp nm p z =
     bnd GEL_Psats (\<lambda>Psats. bnd (GEL_Vms_sat nm) (\<lambda>Vms_sat.
     bnd (GEL_dVms_sat_dT nm) (\<lambda>dVms_sat_dT. bnd GEL_dPsats_dT (\<lambda>dPsats_dT.
     bnd GEL_Hvaps_T_ref (\<lambda>Hvaps_T_ref.
     bnd Cpl_integrals_pure (\<lambda>Cpl_ints.
     bnd (GEL_dVms_sat_dT_T_ref nm) (\<lambda>dVms_sat_dT_T_ref.
     bnd (GEL_Vms_sat_T_ref nm) (\<lambda>Vms_sat_T_ref.
     bnd GEL_Psats_T_ref (\<lambda>Psats_T_ref.
     bnd GEL_Hvaps (\<lambda>Hvaps.
     bnd (getattr cmps) (\<lambda>cs.
       lift (loopE (H_liquid_Cp_term p z Cpl_ints Hvaps_T_ref Psats_T_ref Vms_sat_T_ref
                      dVms_sat_dT_T_ref) cs 0))))))))))))"

definition GEL_H_no_P :: "real list \<Rightarrow> real list \<Rightarrow> (gel, real) meth" where
  "GEL_H_no_P z Cpig_ints =
     bnd GEL_Hvaps (\<lambda>Hvaps. bnd (getattr cmps) (\<lambda>cs.
       lift (loopE (H_no_P_term z Cpig_ints Hvaps) cs 0)))"

definition GEL_H :: "numerics \<Rightarrow> (gel, real) meth" where
  "GEL_H nm =
     cached_f ''_H''
       (bnd (getattr T) (\<lambda>t. bnd (getattr P) (\<lambda>p. bnd (getattr zs) (\<lambda>z.
        bnd (gets P_DEPENDENT_H_LIQ) (\<lambda>pdep.
        bnd Cpig_integrals_pure (\<lambda>Cpig_ints.
        bnd (if pdep then
               bnd (gets use_IG_Cp) (\<lambda>ig.
                 if ig then GEL_H_IG_Cp nm t p z Cpig_ints else GEL_H_liquid_Cp nm p z)
             else GEL_H_no_P z Cpig_ints) (\<lambda>H.
        bnd (gets GibbsExcessModel) (\<lambda>ge. bnd (lift (ge_HE ge)) (\<lambda>HE.
          ret (H + HE))))))))))"

text \<open>\<^verbatim>\<open>GibbsExcessLiquid.S\<close>. Its last two statements are
  \<^verbatim>\<open>self._S = S + self.GibbsExcessModel.SE()\<close> and \<^verbatim>\<open>return S\<close>: the value memoised
  has the excess entropy added, the value returned by the computing call has not.\<close>

definition S_mixing_term :: "real list \<Rightarrow> real list \<Rightarrow> nat \<Rightarrow> real \<Rightarrow> error + real" where
  "S_mixing_term z lz i S = rbind (idx z i) (\<lambda>zi. rbind (idx lz i) (\<lambda>l. Inr (S - zi * l)))"

definition S_IG_Cp_term ::
  "real \<Rightarrow> real \<Rightarrow> real list \<Rightarrow> real list \<Rightarrow> real list \<Rightarrow> real list \<Rightarrow> real list \<Rightarrow>
   real list \<Rightarrow> nat \<Rightarrow> real \<Rightarrow> error + real" where
  "S_IG_Cp_term t p z Cpig_ints_T Psats Vms_sat dPsats_dT dVms_sat_dT i S =
     rbind (idx Cpig_ints_T i) (\<lambda>dSi0.
     rbind (idx Psats i) (\<lambda>ps. rbind (fdiv (R * t) ps) (\<lambda>q.
     rbind (idx Vms_sat i) (\<lambda>vm.
     (let dVsat = q - vm in
      rbind (idx dPsats_dT i) (\<lambda>dps.
      (let dSvap = dps * dVsat; dSi1 = dSi0 - dSvap in
       rbind (idx Psats i) (\<lambda>ps'. rbind (log_py (ps' * P_REF_IG_INV)) (\<lambda>l.
       (let dSi2 = dSi1 - R * l in
        rbind (idx Psats i) (\<lambda>ps''.
        (let dP = max 0.0 (p - ps'') in
         rbind (idx dVms_sat_dT i) (\<lambda>dv.
         (let dSi3 = dSi2 - dP * dv in
          rbind (idx z i) (\<lambda>zi. Inr (S + dSi3 * zi))))))))))))))))"

definition S_liquid_Cp_term ::
  "real \<Rightarrow> real list \<Rightarrow> real list \<Rightarrow> real list \<Rightarrow> real list \<Rightarrow> real list \<Rightarrow>
   nat \<Rightarrow> real \<Rightarrow> error + real" where
  "S_liquid_Cp_term p z Cpl_ints_T Hvaps_T_ref Psats_T_ref dVms_sat_dT_T_ref i S =
     rbind (idx Cpl_ints_T i) (\<lambda>dSi0.
     rbind (idx Hvaps_T_ref i) (\<lambda>hv.
     (let dSi1 = dSi0 - hv * T_REF_IG_INV in
      rbind (idx Psats_T_ref i) (\<lambda>psr. rbind (log_py (psr * P_REF_IG_INV)) (\<lambda>l.
      (let dSi2 = dSi1 - R * l in
       rbind (idx Psats_T_ref i) (\<lambda>psr'.
       (let dP = p - psr' in
        rbind (idx dVms_sat_dT_T_ref i) (\<lambda>dvr.
        (let dSi3 = dSi2 - dP * dvr in
         rbind (idx z i) (\<lambda>zi. Inr (S + dSi3 * zi))))))))))))"

definition S_no_P_term ::
  "real \<Rightarrow> real \<Rightarrow> real list \<Rightarrow> real list \<Rightarrow> real list \<Rightarrow> nat \<Rightarrow> real \<Rightarrow> error + real" where
  "S_no_P_term p T_inv z Cpig_ints_T Hvaps i S =
     rbind (idx Cpig_ints_T i) (\<lambda>Sg298_to_T.
     rbind (idx Hvaps i) (\<lambda>hv.
     (let Svap = - hv * T_inv in
      rbind (idx z i) (\<lambda>zi. rbind (log_py (p * P_REF_IG_INV)) (\<lambda>l.
        Inr (S + zi * (Sg298_to_T + Svap - R * l)))))))"

definition GEL_S_liquid_Cp ::
  "numerics \<Rightarrow> real \<Rightarrow> real list \<Rightarrow> real \<Rightarrow> (gel, real) meth" where
  "GEL_S_liquid_Cp nm p z S1 =
     bnd GEL_Hvaps_T_ref (\<lambda>Hvaps_T_ref.
     bnd GEL_Psats_T_ref (\<lambda>Psats_T_ref.
     bnd Cpl_integrals_over_T_pure (\<lambda>Cpl_ints_T.
     bnd (GEL_dVms_sat_dT_T_ref nm) (\<lambda>dVms_sat_dT_T_ref.
     bnd (GEL_Vms_sat_T_ref nm) (\<lambda>Vms_sat_T_ref.
     bnd (getattr cmps) (\<lambda>cs'.
       lift (loopE (S_liquid_Cp_term p z Cpl_ints_T Hvaps_T_ref Psats_T_ref dVms_sat_dT_T_ref)
               cs' S1)))))))"

definition GEL_S_P_dependent ::
  "numerics \<Rightarrow> real \<Rightarrow> real \<Rightarrow> real list \<Rightarrow> real list \<Rightarrow> real list \<Rightarrow> real list \<Rightarrow>
   real list \<Rightarrow> real \<Rightarrow> (gel, real) meth" where
  "GEL_S_P_dependent nm t p z Cpig_ints_T Psats Vms_sat dPsats_dT S1 =
     bnd (GEL_dVms_sat_dT nm) (\<lambda>dVms_sat_dT.
     bnd (gets use_IG_Cp) (\<lambda>ig.
     if ig then
       bnd (getattr cmps) (\<lambda>cs'.
         lift (loopE (S_IG_Cp_term t p z Cpig_ints_T Psats Vms_sat dPsats_dT dVms_sat_dT)
                 cs' S1))
     else GEL_S_liquid_Cp nm p z S1))"

definition GEL_S_no_P ::
  "real \<Rightarrow> real \<Rightarrow> real list \<Rightarrow> nat list \<Rightarrow> real list \<Rightarrow> real \<Rightarrow> (gel, real) meth" where
  "GEL_S_no_P p T_inv z cs Cpig_ints_T S1 =
     bnd GEL_Hvaps (\<lambda>Hvaps. lift (loopE (S_no_P_term p T_inv z Cpig_ints_T Hvaps) cs S1))"

definition GEL_S_store :: "real \<Rightarrow> (gel, real) meth" where
  "GEL_S_store S =
     bnd (gets GibbsExcessModel) (\<lambda>ge. bnd (lift (ge_SE ge)) (\<lambda>SE.
       (\<lambda>s. Inr (S, s\<lparr>fcache := (fcache s)(''_S'' \<mapsto> S + SE)\<rparr>))))"

definition GEL_S_compute :: "numerics \<Rightarrow> (gel, real) meth" where
  "GEL_S_compute nm =
     bnd (getattr T) (\<lambda>t. bnd (getattr P) (\<lambda>p. bnd (getattr zs) (\<lambda>z.
     bnd (getattr cmps) (\<lambda>cs.
     bnd log_zs (\<lambda>lz.
     bnd (lift (loopE (S_mixing_term z lz) cs 0)) (\<lambda>S0.
     bnd (lift (fdiv 1.0 t)) (\<lambda>T_inv.
     bnd Cpig_integrals_over_T_pure (\<lambda>Cpig_ints_T.
     bnd GEL_Psats (\<lambda>Psats. bnd (GEL_Vms_sat nm) (\<lambda>Vms_sat.
     bnd GEL_dPsats_dT (\<lambda>dPsats_dT.
     bnd (gets P_DEPENDENT_H_LIQ) (\<lambda>pdep.
     bnd (if pdep then GEL_S_P_dependent nm t p z Cpig_ints_T Psats Vms_sat dPsats_dT (S0 * R)
          else GEL_S_no_P p T_inv z cs Cpig_ints_T (S0 * R))
       GEL_S_store))))))))))))"

definition GEL_S :: "numerics \<Rightarrow> (gel, real) meth" where
  "GEL_S nm self =
     (case fcache self ''_S'' of Some v \<Rightarrow> Inr (v, self) | None \<Rightarrow> GEL_S_compute nm self)"

text \<open>\<^verbatim>\<open>H_dep\<close> and \<^verbatim>\<open>S_dep\<close> of \<^verbatim>\<open>GibbsExcessLiquid\<close>: \<^verbatim>\<open>self.H() - self.H_ideal_gas()\<close>
  and \<^verbatim>\<open>self.S() - self.H_ideal_gas()\<close>.\<close>

definition GEL_H_dep :: "numerics \<Rightarrow> (gel, real) meth" where
  "GEL_H_dep nm = bnd (GEL_H nm) (\<lambda>h. bnd H_ideal_gas (\<lambda>hig. ret (h - hig)))"

definition GEL_S_dep :: "numerics \<Rightarrow> (gel, real) meth" where
  "GEL_S_dep nm = bnd (GEL_S nm) (\<lambda>s. bnd H_ideal_gas (\<lambda>hig. ret (s - hig)))"

text \<open>\<^verbatim>\<open>GibbsExcessLiquid.V\<close>, with \<^verbatim>\<open>Vms\<close>, which returns \<^verbatim>\<open>self.Vms_sat()\<close>.\<close>

definition GEL_V :: "numerics \<Rightarrow> (gel, real) meth" where
  "GEL_V nm =
     cached_f ''_V''
       (bnd (getattr zs) (\<lambda>z. bnd (GEL_Vms_sat nm) (\<lambda>Vms. bnd (getattr cmps) (\<lambda>cs.
          lift (loopE (\<lambda>i V. rbind (idx z i) (\<lambda>zi. rbind (idx Vms i) (\<lambda>vm.
                         Inr (V + zi * vm)))) cs 0)))))"

section \<open>The phase variants and the accessor V\<close>

text \<open>A phase object is an object of one of the classes. \<^verbatim>\<open>obj.V()\<close> looks \<^verbatim>\<open>V\<close> up
  on the instance, then on its class, then on \<^verbatim>\<open>Phase\<close>: \<^verbatim>\<open>EOSGas\<close> and
  \<^verbatim>\<open>GibbsExcessLiquid\<close> define \<^verbatim>\<open>V\<close>; \<^verbatim>\<open>IdealGas\<close> (which defines \<^verbatim>\<open>__init__\<close>,
  \<^verbatim>\<open>fugacities\<close>, \<^verbatim>\<open>lnphis\<close>, \<^verbatim>\<open>dlnphis_dT\<close>, \<^verbatim>\<open>dlnphis_dP\<close> and \<^verbatim>\<open>to_TP_zs\<close>) and
  \<^verbatim>\<open>Phase\<close> do not, and no instance attribute has that name.\<close>

datatype phase_obj = IdealGas phase | EOSGas eos_gas | GibbsExcessLiquid gel

fun V :: "numerics \<Rightarrow> (phase_obj, real) meth" where
  "V nm (IdealGas self) = Inl AttributeError"
| "V nm (EOSGas self) =
     (case EOSGas_V self of Inl e \<Rightarrow> Inl e | Inr (v, self') \<Rightarrow> Inr (v, EOSGas self'))"
| "V nm (GibbsExcessLiquid self) =
     (case GEL_V nm self of Inl e \<Rightarrow> Inl e
      | Inr (v, self') \<Rightarrow> Inr (v, GibbsExcessLiquid self'))"

section \<open>Checks of the testable properties and example liquids\<close>

text \<open>The departure closure as a caller checks it on one snapshot: \<^verbatim>\<open>S()\<close>, then
  \<^verbatim>\<open>S_dep() + S_ideal_gas()\<close>. And an accessor called twice on the same snapshot.\<close>

definition departure_closure_S :: "numerics \<Rightarrow> (gel, real \<times> real) meth" where
  "departure_closure_S nm =
     bnd (GEL_S nm) (\<lambda>s. bnd (GEL_S_dep nm) (\<lambda>d. bnd S_ideal_gas (\<lambda>ig. ret (s, d + ig))))"

definition call_twice :: "('s, 'a) meth \<Rightarrow> ('s, 'a \<times> 'a) meth" where
  "call_twice m = bnd m (\<lambda>a. bnd m (\<lambda>b. ret (a, b)))"

text \<open>A correlation object that is not locked and whose value, derivative, integral and
  integral over \<open>T\<close> are the given constants; an activity model with the given excess
  enthalpy and entropy (its transform returns a model with the same values); and a one-component liquid snapshot at 300 K and 101325 Pa built
  from them: vapor pressure 101325 Pa, liquid volume \<open>10\<^sup>-\<^sup>4\<close>, heat of vaporization
  30000, gas heat-capacity integrals 1000 and 3, liquid heat-capacity integrals 2000
  and 6.\<close>

definition const_corr :: "real \<Rightarrow> real \<Rightarrow> real \<Rightarrow> real \<Rightarrow> corr" where
  "const_corr v dv itg itg_T =
     \<lparr>locked = False, best_fit_Tmin = 0, best_fit_Tmin_slope = 0, best_fit_Tmin_value = 0,
      best_fit_Tmax = 0, best_fit_Tmax_slope = 0, best_fit_Tmax_value = 0,
      best_fit_log_coeff = 0, best_fit_coeffs = [], best_fit_int_coeffs = [],
      best_fit_T_int_T_coeffs = [], best_fit_d_coeffs = [], best_fit_d2_coeffs = [],
      best_fit_Tc = 0, Tmax = 1000,
      call = (\<lambda>t. Inr (Some v)), extrapolate_tabular = (\<lambda>t. Inr v),
      T_dependent_property = (\<lambda>t. Inr v),
      T_dependent_property_derivative = (\<lambda>t n. Inr dv),
      T_dependent_property_integral = (\<lambda>a b. Inr itg),
      T_dependent_property_integral_over_T = (\<lambda>a b. Inr itg_T)\<rparr>"

definition const_ge :: "real \<Rightarrow> real \<Rightarrow> ge_model" where
  "const_ge he se =
     GEModel (Inr he) (Inr se) (Inr 0)
       (\<lambda>t xs. Inr (GEModel (Inr he) (Inr se) (Inr 0) (\<lambda>t' xs'. Inl AttributeError)))"

definition ex_GEL :: "bool \<Rightarrow> bool \<Rightarrow> bool \<Rightarrow> real \<Rightarrow> gel" where
  "ex_GEL pdep ig vlock se =
     \<lparr>T = Some 300, P = Some 101325, zs = Some [1], N = Some 1, cmps = Some [0],
      HeatCapacityGases = Some [const_corr 30 0 1000 3],
      Cpgs_locked = False, Cpgs_data = None,
      Hfs = None, Gfs = None, Sfs = None,
      fcache = Map.empty, lcache = Map.empty,
      VaporPressures = [const_corr 101325 0 0 0],
      VolumeLiquids = Some [const_corr 0.0001 0 0 0],
      eos_pure_instances = None,
      EnthalpyVaporizations = Some [const_corr 30000 0 0 0],
      HeatCapacityLiquids = Some [const_corr 60 0 2000 6],
      Psats_locked = False, Psats_data = None,
      Cpls_locked = False, Cpls_data = None,
      Vms_sat_locked = vlock,
      Vms_sat_data = (if vlock then
        Some \<lparr>ft0_Tmins = [200], ft1_Tmin_slopes = [0], ft2_Tmin_values = [0.0001],
              ft3_Tmaxes = [400], ft4_Tmax_slopes = [0], ft5_Tmax_values = [0.0001],
              ft6_coeffs = [[0.0001]], ft7_d_coeffs = [[0]], ft8_d2_coeffs = [[0]]\<rparr>
        else None),
      Hvap_locked = False, Hvap_data = None,
      use_phis_sat = False, use_Poynting = False,
      P_DEPENDENT_H_LIQ = pdep, use_IG_Cp = ig,
      henry_data = None, henry_components = [False], has_henry_components = False,
      use_Tait = False, Tait_B_data = None, Tait_C_data = None,
      GibbsExcessModel = const_ge 0 se, Hvaps_T_ref_inst = None\<rparr>"

text \<open>Numerics whose linear-fit evaluators return the constant liquid volume and a zero
  derivative for the one component of the example.\<close>

definition ex_numerics_fits :: numerics where
  "ex_numerics_fits =
     ex_numerics\<lparr>evaluate_linear_fits := (\<lambda>d t. Inr [0.0001]),
                 evaluate_linear_fits_d := (\<lambda>d t. Inr [0]),
                 evaluate_linear_fits_d2 := (\<lambda>d t. Inr [0])\<rparr>"

section \<open>Auxiliary notions for the proofs\<close>

text \<open>A method preserves a property of the object when every returning call from a
  state with the property ends in a state with it.\<close>

definition preserves :: "('s \<Rightarrow> bool) \<Rightarrow> ('s, 'a) meth \<Rightarrow> bool" where
  "preserves I m = (\<forall>s v s'. I s \<longrightarrow> m s = Inr (v, s') \<longrightarrow> I s')"

text \<open>The liquid-Cp reference path on the locked volume fast path, with the derivative
  at the reference temperature not memoised.\<close>

definition locked_ref_path :: "gel \<Rightarrow> bool" where
  "locked_ref_path s =
     (Vms_sat_locked s \<and> P_DEPENDENT_H_LIQ s \<and> \<not> use_IG_Cp s
      \<and> lcache s ''_dVms_sat_dT_T_ref'' = None)"

section \<open>Properties of log_zs\<close>

lemma mapE_log_or_floor:
  "mapE log_or_floor z = Inr (map (\<lambda>zi. if 0 < zi then ln zi else - 690.7755278982137) z)"
  by (induction z) (simp_all add: log_or_floor_def log_py_def)

lemma mapE_log_py_cases:
  "mapE log_py z = Inr (map (\<lambda>zi. if 0 < zi then ln zi else - 690.7755278982137) z)
   \<or> mapE log_py z = Inl ValueError"
  by (induction z) (auto simp: log_py_def)

text \<open>
  C7. For every composition vector, \<open>log_zs\<close> does not raise. On a snapshot that has no
  memoised \<^verbatim>\<open>_log_zs\<close> yet, the entry of a positive \<open>zi\<close> is \<open>ln zi\<close> and the entry of
  a \<open>zi \<le> 0\<close> is the constant \<open>-690.7755278982137\<close>; the list is memoised and nothing
  else of the snapshot changes.
\<close>

theorem log_zs_floor:
  assumes "zs self = Some z"
  shows "(\<exists>r. log_zs self = Inr r) \<and>
         (lcache self ''_log_zs'' = None \<longrightarrow>
          log_zs self =
            Inr (map (\<lambda>zi. if 0 < zi then ln zi else - 690.7755278982137) z,
                 self\<lparr>lcache := (lcache self)(''_log_zs'' \<mapsto>
                   map (\<lambda>zi. if 0 < zi then ln zi else - 690.7755278982137) z)\<rparr>))"
  using assms mapE_log_py_cases [of z]
  by (auto simp: log_zs_def cached_l_def bnd_def getattr_def lift_def except_ValueError_def
      mapE_log_or_floor split: option.splits)

theorem log_zs_floor_witness:
  "\<exists>s'. log_zs ((IdealGas_init None None None)\<lparr>zs := Some [1, 0, - 1]\<rparr>)
         = Inr ([0, - 690.7755278982137, - 690.7755278982137], s')"
  using log_zs_floor [of "(IdealGas_init None None None)\<lparr>zs := Some [1, 0, - 1]\<rparr>"
                         "[1, 0, - 1]"]
  by (simp add: IdealGas_init_def)

section \<open>EOSGas: root fallback and state transforms\<close>






text \<open>
  C3, as the code has it. \<open>to_zs_TPV\<close> raises the input error at once, before any
  equation-of-state evaluation, when \<open>T\<close> is not given and \<open>P\<close> and \<open>V\<close> are not both
  given. With \<open>T\<close> and \<open>P\<close> given it evaluates the equation of state at \<open>(T, P)\<close>
  whether or not \<open>V\<close> is given too; with \<open>T\<close> and \<open>V\<close> it takes \<open>P\<close> from the
  equation of state, with \<open>P\<close> and \<open>V\<close> it takes \<open>T\<close> from it. In these cases it fails
  only with the exception of that evaluation, and otherwise returns the new snapshot and
  leaves the receiver as it was.
\<close>

theorem to_zs_TPV_cases:
  "(p = None \<or> v = None \<longrightarrow> EOSGas_to_zs_TPV z None p v self = Inl ValueError)
   \<and> EOSGas_to_zs_TPV z (Some t') (Some p') v self =
       (case eos_from_TP self t' p' z of Inl e \<Rightarrow> Inl e
        | Inr m \<Rightarrow> Inr (EOSGas_new self (Some t') (Some p') z (Some m), self))
   \<and> EOSGas_to_zs_TPV z (Some t') None (Some v') self =
       (case eos_from_TV self t' v' z of Inl e \<Rightarrow> Inl e
        | Inr m \<Rightarrow> Inr (EOSGas_new self (Some t') (Some (eos_P m)) z (Some m), self))
   \<and> EOSGas_to_zs_TPV z None (Some p') (Some v') self =
       (case eos_from_PV self p' v' z of Inl e \<Rightarrow> Inl e
        | Inr m \<Rightarrow> Inr (EOSGas_new self (Some (eos_T m)) (Some p') z (Some m), self))"
  by (auto simp: EOSGas_to_zs_TPV_def)

theorem to_zs_TPV_cases_witness:
  "EOSGas_to_zs_TPV [1] None (Some 5) None (ex_EOSGas (Some (ex_root 2)) None) = Inl ValueError
   \<and> EOSGas_to_zs_TPV [1] None None (Some 5) (ex_EOSGas (Some (ex_root 2)) None) = Inl ValueError
   \<and> EOSGas_to_zs_TPV [1] None None None (ex_EOSGas (Some (ex_root 2)) None) = Inl ValueError"
  using to_zs_TPV_cases [of "Some 5" None "[1]" "ex_EOSGas (Some (ex_root 2)) None"]
    to_zs_TPV_cases [of None "Some 5" "[1]" "ex_EOSGas (Some (ex_root 2)) None"]
    to_zs_TPV_cases [of None None "[1]" "ex_EOSGas (Some (ex_root 2)) None"]
  by simp

text \<open>C3 as stated fails: with all three of \<open>T\<close>, \<open>P\<close>, \<open>V\<close> given the call returns a
  snapshot at \<open>(T, P)\<close>.\<close>

theorem to_zs_TPV_three_given_counterexample:
  "EOSGas_to_zs_TPV [1] (Some 350) (Some 200000) (Some 1) (ex_EOSGas (Some (ex_root 2)) None)
   = Inr (EOSGas_new (ex_EOSGas (Some (ex_root 2)) None) (Some 350) (Some 200000) [1]
            (Some (ex_eos 350 200000 [1] (Some (ex_root 1)) None)),
          ex_EOSGas (Some (ex_root 2)) None)"
  by (simp add: EOSGas_to_zs_TPV_def eos_from_TP_def except_AttributeError_def rbind_def attr_def
      ex_EOSGas_def ex_eos_def ex_eos_class_def)

section \<open>IdealGas: activity coefficients\<close>

lemma IdealGas_phis_val:
  "N self = Some n \<Longrightarrow> IdealGas_phis self = Inr (replicate n 1, self)"
  by (simp add: IdealGas_phis_def Phase_phis_def IdealGas_lnphis_def bnd_def getattr_def ret_def)

lemma pure_phi:
  "i < n \<Longrightarrow> gammas_pure_phi IdealGas_phis IdealGas_to_TP_zs t p n i self = Inr (1, self)"
  by (simp add: gammas_pure_phi_def bnd_def IdealGas_to_TP_zs_def IdealGas_phis_val lift_def idx_def)

lemma mapM_pure_phi:
  "\<forall>i\<in>set cs. i < n \<Longrightarrow>
   mapM (gammas_pure_phi IdealGas_phis IdealGas_to_TP_zs t p n) cs self
     = Inr (replicate (length cs) 1, self)"
  by (induction cs) (simp_all add: ret_def bnd_def pure_phi)

lemma mapE_ratio:
  "\<forall>i\<in>set cs. i < n \<Longrightarrow>
   mapE (\<lambda>i. rbind (idx (replicate n (1::real)) i) (\<lambda>a. rbind (idx (replicate n (1::real)) i) (\<lambda>b. fdiv a b))) cs
    = Inr (replicate (length cs) 1)"
  by (induction cs) (simp_all add: rbind_def idx_def fdiv_def)

lemma IdealGas_gammas_fields:
  assumes "T self = Some t" "P self = Some p" "zs self = Some z"
    "N self = Some (length z)" "cmps self = Some [0..<length z]"
  shows "IdealGas_gammas self = Inr (replicate (length z) 1, self)"
  using assms mapM_pure_phi [of "[0..<length z]" "length z" t p self]
    mapE_ratio [of "[0..<length z]" "length z"]
  by (simp add: IdealGas_gammas_def Phase_gammas_def bnd_def getattr_def IdealGas_phis_val lift_def)

text \<open>
  C8. On every IdealGas snapshot made by \<open>to_TP_zs\<close> with a composition of length
  \<open>N\<close>, \<open>gammas\<close> returns \<open>N\<close> ones and leaves the snapshot as it was: the mixture
  fugacity coefficients are all \<open>exp 0 = 1\<close>, and so are those of each sub-evaluation at
  the unit composition (\<open>1\<close> for component \<open>i\<close>, \<open>0\<close> elsewhere).
\<close>

theorem IdealGas_gammas_ones:
  assumes "IdealGas_to_TP_zs t p z obj = Inr (self, obj')"
  shows "IdealGas_gammas self = Inr (replicate (length z) 1, self)
       \<and> IdealGas_phis self = Inr (replicate (length z) 1, self)
       \<and> (\<forall>i < length z. \<exists>pure.
            IdealGas_to_TP_zs t p ((replicate (length z) 0)[i := 1]) self = Inr (pure, self)
            \<and> IdealGas_phis pure = Inr (replicate (length z) 1, pure)
            \<and> gammas_pure_phi IdealGas_phis IdealGas_to_TP_zs t p (length z) i self = Inr (1, self))"
proof -
  from assms have f: "T self = Some t" "P self = Some p" "zs self = Some z"
    "N self = Some (length z)" "cmps self = Some [0..<length z]"
    by (auto simp: IdealGas_to_TP_zs_def)
  show ?thesis
    using IdealGas_gammas_fields [OF f] f
    by (simp add: IdealGas_phis_val pure_phi IdealGas_to_TP_zs_def)
qed

theorem IdealGas_gammas_ones_witness:
  "IdealGas_gammas (fst (projr (IdealGas_to_TP_zs 350 200000 [0.4, 0.6] (IdealGas_init None None None))))
   = Inr ([1, 1], fst (projr (IdealGas_to_TP_zs 350 200000 [0.4, 0.6] (IdealGas_init None None None))))"
  using IdealGas_gammas_ones [of 350 200000 "[0.4, 0.6]" "IdealGas_init None None None"
      "fst (projr (IdealGas_to_TP_zs 350 200000 [0.4, 0.6] (IdealGas_init None None None)))"
      "IdealGas_init None None None"]
  by (simp add: IdealGas_to_TP_zs_def numeral_2_eq_2)

section \<open>The fast path of the heat-capacity integral\<close>

lemma isCont_If_less:
  fixes f g :: "real \<Rightarrow> real"
  assumes "isCont f a" "isCont g a" "f a = g a"
  shows "isCont (\<lambda>x. if x < a then f x else g x) a"
proof -
  have l: "(f \<longlongrightarrow> g a) (at_left a)" and r: "(g \<longlongrightarrow> g a) (at_right a)"
    using assms by (auto simp: isCont_def filterlim_at_split)
  show ?thesis
    unfolding isCont_def
  proof (intro filterlim_split_at; simp)
    show "((\<lambda>x. if x < a then f x else g x) \<longlongrightarrow> g a) (at_left a)"
      by (subst filterlim_cong[OF refl refl, where g=f]) (simp_all add: eventually_at_filter l)
    show "((\<lambda>x. if x < a then f x else g x) \<longlongrightarrow> g a) (at_right a)"
      by (subst filterlim_cong[OF refl refl, where g=g]) (simp_all add: eventually_at_filter r)
  qed
qed

lemma isCont_If_le:
  fixes f g :: "real \<Rightarrow> real"
  assumes "isCont f a" "isCont g a" "f a = g a"
  shows "isCont (\<lambda>x. if x \<le> a then f x else g x) a"
proof (rule isCont_If_ge)
  show "continuous (at_left a) f" using assms(1) by (simp add: continuous_at_split)
  show "(g \<longlongrightarrow> f a) (at_right a)"
    using assms(2,3) by (auto simp: isCont_def filterlim_at_split)
qed

lemma ev_less: "(a::real) < b \<Longrightarrow> eventually (\<lambda>x. x < b) (nhds a)"
  by (simp add: eventually_nhds) (rule exI [of _ "{..<b}"], auto)

lemma ev_greater: "(b::real) < a \<Longrightarrow> eventually (\<lambda>x. b < x) (nhds a)"
  by (simp add: eventually_nhds) (rule exI [of _ "{b<..}"], auto)

lemma horner_cont: "isCont (horner cs) t"
proof -
  have "isCont (\<lambda>x. foldl (\<lambda>tot c. tot * x + c) (a x) cs) t" if "isCont a t" for a
    using that
  proof (induction cs arbitrary: a)
    case Nil then show ?case by simp
  next
    case (Cons c cs)
    have "isCont (\<lambda>x. a x * x + c) t" using Cons.prems by (intro continuous_intros)
    from Cons.IH [OF this] show ?case by simp
  qed
  from this [of "\<lambda>x. 0"] have "isCont (\<lambda>x. foldl (\<lambda>tot c. tot * x + c) 0 cs) t" by simp
  then show ?thesis by (simp add: horner_def [abs_def])
qed

lemma piecewise_unfold:
  "piecewise_integral_value t ic lo hi vmin vmax smin smax =
     (if t < lo then t * (0.5 * smin * t + (vmin - smin * lo))
      else if t \<le> hi then lo * (0.5 * smin * lo + (vmin - smin * lo)) + (horner ic t - horner ic lo)
      else lo * (0.5 * smin * lo + (vmin - smin * lo)) + (horner ic hi - horner ic lo)
           + (t * (0.5 * smax * t + (vmax - smax * hi)) - hi * (0.5 * smax * hi + (vmax - smax * hi))))"
  by (simp add: piecewise_integral_value_def Let_def)

lemma upper_pieces_cont_hi:
  "isCont (\<lambda>t. if t \<le> hi then lo * (0.5 * smin * lo + (vmin - smin * lo)) + (horner ic t - horner ic lo)
      else lo * (0.5 * smin * lo + (vmin - smin * lo)) + (horner ic hi - horner ic lo)
           + (t * (0.5 * smax * t + (vmax - smax * hi)) - hi * (0.5 * smax * hi + (vmax - smax * hi)))) hi"
  by (rule isCont_If_le) (auto intro!: continuous_intros horner_cont)

lemma upper_pieces_cont_lo:
  assumes "lo \<le> hi"
  shows "isCont (\<lambda>t. if t \<le> hi then lo * (0.5 * smin * lo + (vmin - smin * lo)) + (horner ic t - horner ic lo)
      else lo * (0.5 * smin * lo + (vmin - smin * lo)) + (horner ic hi - horner ic lo)
           + (t * (0.5 * smax * t + (vmax - smax * hi)) - hi * (0.5 * smax * hi + (vmax - smax * hi)))) lo"
proof (cases "lo = hi")
  case True show ?thesis unfolding True by (rule upper_pieces_cont_hi)
next
  case False
  with assms have "lo < hi" by simp
  then have "eventually (\<lambda>x. x < hi) (nhds lo)" by (rule ev_less)
  then have ev: "eventually (\<lambda>t. (if t \<le> hi then lo * (0.5 * smin * lo + (vmin - smin * lo)) + (horner ic t - horner ic lo)
      else lo * (0.5 * smin * lo + (vmin - smin * lo)) + (horner ic hi - horner ic lo)
           + (t * (0.5 * smax * t + (vmax - smax * hi)) - hi * (0.5 * smax * hi + (vmax - smax * hi))))
       = lo * (0.5 * smin * lo + (vmin - smin * lo)) + (horner ic t - horner ic lo)) (nhds lo)"
    by (rule eventually_mono) simp
  have "isCont (\<lambda>t. lo * (0.5 * smin * lo + (vmin - smin * lo)) + (horner ic t - horner ic lo)) lo"
    by (intro continuous_intros horner_cont)
  then show ?thesis using isCont_cong [OF ev] by blast
qed

lemma piecewise_cont_lo:
  assumes "lo \<le> hi"
  shows "isCont (\<lambda>t. piecewise_integral_value t ic lo hi vmin vmax smin smax) lo"
  unfolding piecewise_unfold
proof (rule isCont_If_less)
  show "isCont (\<lambda>x. x * (0.5 * smin * x + (vmin - smin * lo))) lo"
    by (intro continuous_intros)
  show "isCont (\<lambda>t. if t \<le> hi then lo * (0.5 * smin * lo + (vmin - smin * lo)) + (horner ic t - horner ic lo)
      else lo * (0.5 * smin * lo + (vmin - smin * lo)) + (horner ic hi - horner ic lo)
           + (t * (0.5 * smax * t + (vmax - smax * hi)) - hi * (0.5 * smax * hi + (vmax - smax * hi)))) lo"
    by (rule upper_pieces_cont_lo [OF assms])
  show "lo * (0.5 * smin * lo + (vmin - smin * lo)) =
    (if lo \<le> hi then lo * (0.5 * smin * lo + (vmin - smin * lo)) + (horner ic lo - horner ic lo)
      else lo * (0.5 * smin * lo + (vmin - smin * lo)) + (horner ic hi - horner ic lo)
           + (lo * (0.5 * smax * lo + (vmax - smax * hi)) - hi * (0.5 * smax * hi + (vmax - smax * hi))))"
    using assms by simp
qed

lemma piecewise_cont_hi:
  assumes "lo \<le> hi"
  shows "isCont (\<lambda>t. piecewise_integral_value t ic lo hi vmin vmax smin smax) hi"
proof (cases "lo = hi")
  case True show ?thesis unfolding True by (rule piecewise_cont_lo) simp
next
  case False
  with assms have "lo < hi" by simp
  then have "eventually (\<lambda>x. lo < x) (nhds hi)" by (rule ev_greater)
  then have ev: "eventually (\<lambda>t. piecewise_integral_value t ic lo hi vmin vmax smin smax
     = (if t \<le> hi then lo * (0.5 * smin * lo + (vmin - smin * lo)) + (horner ic t - horner ic lo)
      else lo * (0.5 * smin * lo + (vmin - smin * lo)) + (horner ic hi - horner ic lo)
           + (t * (0.5 * smax * t + (vmax - smax * hi)) - hi * (0.5 * smax * hi + (vmax - smax * hi)))))
      (nhds hi)"
    by (rule eventually_mono) (simp add: piecewise_unfold)
  show ?thesis using isCont_cong [OF ev] upper_pieces_cont_hi by blast
qed

lemma piecewise_deriv:
  assumes d: "\<And>x. (horner ic has_real_derivative horner cs x) (at x)"
    and "t \<noteq> lo" "t \<noteq> hi" "lo \<le> hi"
  shows "((\<lambda>t. piecewise_integral_value t ic lo hi vmin vmax smin smax) has_real_derivative
          (if t < lo then (t - lo) * smin + vmin
           else if t > hi then (t - hi) * smax + vmax else horner cs t)) (at t)"
proof -
  consider "t < lo" | "lo < t" "t < hi" | "hi < t" using assms by linarith
  then show ?thesis
  proof cases
    case 1
    have ev: "eventually (\<lambda>x. piecewise_integral_value x ic lo hi vmin vmax smin smax
        = x * (0.5 * smin * x + (vmin - smin * lo))) (nhds t)"
      using ev_less [OF 1] by (rule eventually_mono) (simp add: piecewise_unfold)
    have "((\<lambda>x. x * (0.5 * smin * x + (vmin - smin * lo))) has_real_derivative
           (t - lo) * smin + vmin) (at t)"
      by (auto intro!: derivative_eq_intros simp: algebra_simps)
    then show ?thesis using 1 DERIV_cong_ev [OF refl ev refl] by simp
  next
    case 2
    have "eventually (\<lambda>x. lo < x \<and> x < hi) (nhds t)"
      using ev_less [OF 2(2)] ev_greater [OF 2(1)] by (rule eventually_conj [rotated])
    then have ev: "eventually (\<lambda>x. piecewise_integral_value x ic lo hi vmin vmax smin smax
        = lo * (0.5 * smin * lo + (vmin - smin * lo)) + (horner ic x - horner ic lo)) (nhds t)"
      by (rule eventually_mono) (simp add: piecewise_unfold)
    have "((\<lambda>x. lo * (0.5 * smin * lo + (vmin - smin * lo)) + (horner ic x - horner ic lo))
            has_real_derivative horner cs t) (at t)"
      by (auto intro!: derivative_eq_intros d)
    then show ?thesis using 2 DERIV_cong_ev [OF refl ev refl] by simp
  next
    case 3
    with assms have 4: "lo < t" by simp
    have "eventually (\<lambda>x. hi < x) (nhds t)" by (rule ev_greater [OF 3])
    then have ev: "eventually (\<lambda>x. piecewise_integral_value x ic lo hi vmin vmax smin smax
        = lo * (0.5 * smin * lo + (vmin - smin * lo)) + (horner ic hi - horner ic lo)
           + (x * (0.5 * smax * x + (vmax - smax * hi)) - hi * (0.5 * smax * hi + (vmax - smax * hi)))) (nhds t)"
      by (rule eventually_mono) (use assms in \<open>simp add: piecewise_unfold\<close>)
    have "((\<lambda>x. lo * (0.5 * smin * lo + (vmin - smin * lo)) + (horner ic hi - horner ic lo)
           + (x * (0.5 * smax * x + (vmax - smax * hi)) - hi * (0.5 * smax * hi + (vmax - smax * hi))))
            has_real_derivative (t - hi) * smax + vmax) (at t)"
      by (auto intro!: derivative_eq_intros simp: algebra_simps)
    then show ?thesis using 3 4 DERIV_cong_ev [OF refl ev refl] by simp
  qed
qed

lemma mapE_Inr_nth:
  "mapE f xs = Inr ys \<Longrightarrow> length ys = length xs \<and> (\<forall>i < length xs. f (xs ! i) = Inr (ys ! i))"
proof (induction xs arbitrary: ys)
  case Nil then show ?case by simp
next
  case (Cons x xs)
  then show ?case
    by (auto split: sum.splits simp: nth_Cons split: nat.splits)
qed

lemma mapE_Inr_map:
  "(\<And>x. x \<in> set xs \<Longrightarrow> f x = Inr (g x)) \<Longrightarrow> mapE f xs = Inr (map g xs)"
  by (induction xs) simp_all

lemma setup_Cpigs_fields:
  assumes "setup_Cpigs nm (Some objs) = Inr (True, Some d)"
  shows "cp0_Tmins d = map best_fit_Tmin objs"
    "cp1_Tmin_slopes d = map best_fit_Tmin_slope objs"
    "cp2_Tmin_values d = map best_fit_Tmin_value objs"
    "cp3_Tmaxes d = map best_fit_Tmax objs"
    "cp4_Tmax_slopes d = map best_fit_Tmax_slope objs"
    "cp5_Tmax_values d = map best_fit_Tmax_value objs"
    "cp7_int_Tmin_offsets d = map cp7_entry objs"
    "cp8_int_Tmax_offsets d = map cp8_entry objs"
    "cp12_coeffs d = map best_fit_coeffs objs"
    "cp13_int_coeffs d = map best_fit_int_coeffs objs"
    "mapE (cp11_entry nm) objs = Inr (cp11_int_T_ref d)"
  using assms
  by (auto simp: setup_Cpigs_def rbind_def Let_def split: if_splits sum.splits)

lemma Cp_integral_fast_i_closed:
  assumes s: "setup_Cpigs nm (Some objs) = Inr (True, Some d)" and i: "i < length objs"
  shows "Cp_integral_fast_i d t i = Inr (corr_integral (objs ! i) t - cp11_int_T_ref d ! i)"
proof -
  note f = setup_Cpigs_fields [OF s]
  from mapE_Inr_nth [OF f(11)] have l: "length (cp11_int_T_ref d) = length objs" by simp
  show ?thesis
    using i
    by (simp add: Cp_integral_fast_i_def f(1-10) l idx_def rbind_def Let_def corr_integral_def
        piecewise_unfold cp7_entry_def cp8_entry_def)
qed

lemma Cp_pure_fast_i_closed:
  assumes s: "setup_Cpigs nm (Some objs) = Inr (True, Some d)" and i: "i < length objs"
  shows "Cp_pure_fast_i d t i = Inr (corr_value (objs ! i) t)"
  using i
  by (simp add: Cp_pure_fast_i_def setup_Cpigs_fields(1-10) [OF s] idx_def rbind_def
      corr_value_def)

lemma Cpig_integrals_pure_locked:
  assumes s: "setup_Cpigs nm (Some objs) = Inr (True, Some d)"
    and "Cpgs_locked self" "Cpgs_data self = Some d" "T self = Some t"
    "cmps self = Some [0..<length objs]" "lcache self ''_Cpig_integrals_pure'' = None"
  shows "Cpig_integrals_pure self =
          Inr (map (\<lambda>j. corr_integral (objs ! j) t - cp11_int_T_ref d ! j) [0..<length objs],
               self\<lparr>lcache := (lcache self)(''_Cpig_integrals_pure'' \<mapsto>
                 map (\<lambda>j. corr_integral (objs ! j) t - cp11_int_T_ref d ! j) [0..<length objs])\<rparr>)"
proof -
  have "mapE (Cp_integral_fast_i d t) [0..<length objs]
      = Inr (map (\<lambda>j. corr_integral (objs ! j) t - cp11_int_T_ref d ! j) [0..<length objs])"
    by (rule mapE_Inr_map) (simp add: Cp_integral_fast_i_closed [OF s])
  then show ?thesis
    using assms(2-)
    by (simp add: Cpig_integrals_pure_def cached_l_def bnd_def gets_def Cp_integrals_pure_fast_def
        getattr_def lift_def not_None_def)
qed

text \<open>
  C6. For a table bundle built by \<open>setup_Cpigs\<close> from locked correlation objects and a
  component \<open>i\<close> whose fit range is not empty (\<open>Tmin \<le> Tmax\<close>), the fast path returns,
  at every \<open>T\<close>, the closed-form integral of the three-piece function minus the stored
  reference value \<open>c\<close> (\<^verbatim>\<open>Cps_data[11][i]\<close>). As a function of \<open>T\<close> it is continuous
  at \<open>Tmin\<close> and at \<open>Tmax\<close>; between two temperatures inside the fit range it is the
  difference of the polynomial antiderivative; when the stored reference value is the
  closed form at \<open>T_REF_IG\<close> it vanishes at \<open>T_REF_IG\<close> and, with \<open>T_REF_IG\<close> and \<open>T\<close>
  inside the fit range, equals the antiderivative at \<open>T\<close> minus that at \<open>T_REF_IG\<close>;
  when the integral coefficients are an antiderivative of the value coefficients, its
  derivative away from the breakpoints is the three-piece value function of
  \<open>_Cp_pure_fast\<close>. \<open>Cpig_integrals_pure\<close> on a locked snapshot returns these values
  for all components.
\<close>

theorem Cp_integrals_fast_closed_form:
  assumes s: "setup_Cpigs nm (Some objs) = Inr (True, Some d)"
    and i: "i < length objs"
    and le: "best_fit_Tmin (objs ! i) \<le> best_fit_Tmax (objs ! i)"
  shows "\<exists>c. cp11_entry nm (objs ! i) = Inr c \<and> cp11_int_T_ref d ! i = c
     \<and> (\<forall>t. Cp_integral_fast_i d t i = Inr (corr_integral (objs ! i) t - c))
     \<and> isCont (\<lambda>t. corr_integral (objs ! i) t - c) (best_fit_Tmin (objs ! i))
     \<and> isCont (\<lambda>t. corr_integral (objs ! i) t - c) (best_fit_Tmax (objs ! i))
     \<and> (\<forall>t t'. best_fit_Tmin (objs ! i) \<le> t \<and> t \<le> best_fit_Tmax (objs ! i)
               \<and> best_fit_Tmin (objs ! i) \<le> t' \<and> t' \<le> best_fit_Tmax (objs ! i) \<longrightarrow>
           (corr_integral (objs ! i) t - c) - (corr_integral (objs ! i) t' - c)
             = horner (best_fit_int_coeffs (objs ! i)) t - horner (best_fit_int_coeffs (objs ! i)) t')
     \<and> (c = corr_integral (objs ! i) T_REF_IG \<longrightarrow>
          corr_integral (objs ! i) T_REF_IG - c = 0
          \<and> (\<forall>t. best_fit_Tmin (objs ! i) \<le> T_REF_IG \<and> T_REF_IG \<le> best_fit_Tmax (objs ! i)
                  \<and> best_fit_Tmin (objs ! i) \<le> t \<and> t \<le> best_fit_Tmax (objs ! i) \<longrightarrow>
                corr_integral (objs ! i) t - c
                  = horner (best_fit_int_coeffs (objs ! i)) t
                    - horner (best_fit_int_coeffs (objs ! i)) T_REF_IG))
     \<and> (\<forall>t. Cp_pure_fast_i d t i = Inr (corr_value (objs ! i) t))
     \<and> ((\<forall>x. (horner (best_fit_int_coeffs (objs ! i)) has_real_derivative
                  horner (best_fit_coeffs (objs ! i)) x) (at x)) \<longrightarrow>
          (\<forall>t. t \<noteq> best_fit_Tmin (objs ! i) \<and> t \<noteq> best_fit_Tmax (objs ! i) \<longrightarrow>
             ((\<lambda>t. corr_integral (objs ! i) t - c) has_real_derivative corr_value (objs ! i) t)
               (at t)))
     \<and> (\<forall>self t. Cpgs_locked (self :: phase) \<and> Cpgs_data self = Some d \<and> T self = Some t
            \<and> cmps self = Some [0..<length objs]
            \<and> lcache self ''_Cpig_integrals_pure'' = None \<longrightarrow>
          (\<exists>self'. Cpig_integrals_pure self =
             Inr (map (\<lambda>j. corr_integral (objs ! j) t - cp11_int_T_ref d ! j) [0..<length objs],
                  self')))"
proof -
  let ?o = "objs ! i"
  let ?c = "cp11_int_T_ref d ! i"
  from mapE_Inr_nth [OF setup_Cpigs_fields(11) [OF s]] i
  have c: "cp11_entry nm ?o = Inr ?c" by simp
  have closed: "\<forall>t. Cp_integral_fast_i d t i = Inr (corr_integral ?o t - ?c)"
    using Cp_integral_fast_i_closed [OF s i] by simp
  have cont_lo: "isCont (\<lambda>t. corr_integral ?o t - ?c) (best_fit_Tmin ?o)"
    unfolding corr_integral_def by (intro continuous_intros piecewise_cont_lo le)
  have cont_hi: "isCont (\<lambda>t. corr_integral ?o t - ?c) (best_fit_Tmax ?o)"
    unfolding corr_integral_def by (intro continuous_intros piecewise_cont_hi le)
  have inrange: "corr_integral ?o t - corr_integral ?o t'
             = horner (best_fit_int_coeffs ?o) t - horner (best_fit_int_coeffs ?o) t'"
    if "best_fit_Tmin ?o \<le> t" "t \<le> best_fit_Tmax ?o"
       "best_fit_Tmin ?o \<le> t'" "t' \<le> best_fit_Tmax ?o" for t t'
    using that by (simp add: corr_integral_def piecewise_unfold)
  have val: "\<forall>t. Cp_pure_fast_i d t i = Inr (corr_value ?o t)"
    using Cp_pure_fast_i_closed [OF s i] by simp
  have deriv: "((\<lambda>t. corr_integral ?o t - ?c) has_real_derivative corr_value ?o t) (at t)"
    if d: "\<forall>x. (horner (best_fit_int_coeffs ?o) has_real_derivative
                  horner (best_fit_coeffs ?o) x) (at x)"
      and "t \<noteq> best_fit_Tmin ?o" "t \<noteq> best_fit_Tmax ?o" for t
  proof -
    have "((\<lambda>t. corr_integral ?o t) has_real_derivative corr_value ?o t) (at t)"
      unfolding corr_integral_def corr_value_def
      by (rule piecewise_deriv) (use that le in auto)
    then show ?thesis by (auto intro!: derivative_eq_intros)
  qed
  have acc: "\<exists>self'. Cpig_integrals_pure self =
             Inr (map (\<lambda>j. corr_integral (objs ! j) t - cp11_int_T_ref d ! j) [0..<length objs],
                  self')"
    if "Cpgs_locked (self :: phase)" "Cpgs_data self = Some d" "T self = Some t"
      "cmps self = Some [0..<length objs]" "lcache self ''_Cpig_integrals_pure'' = None"
    for self t
    using Cpig_integrals_pure_locked [OF s that] by blast
  show ?thesis
    apply (rule exI [of _ ?c])
    apply (intro conjI)
            apply (rule c)
           apply (rule refl)
          apply (rule closed)
         apply (rule cont_lo)
        apply (rule cont_hi)
       apply (use inrange in force)
      apply (use inrange in force)
     apply (rule val)
    apply (use deriv in blast)
    apply (use acc in blast)
    done
qed

lemma ex_setup:
  "\<exists>d. setup_Cpigs ex_numerics (Some [ex_corr]) = Inr (True, Some d)"
  by (simp add: setup_Cpigs_def ex_numerics_def ex_corr_def rbind_def Let_def cp9_entry_def
      cp10_entry_def cp11_entry_def cp15_entry_def log_py_def)

lemma ex_corr_integral: "corr_integral ex_corr t = t * t + 3 * t"
  by (simp add: corr_integral_def piecewise_unfold ex_corr_def horner_def algebra_simps)

lemma ex_deriv: "(horner [1, 3, 0] has_real_derivative horner [2, 3] x) (at x)"
  unfolding horner_def by (auto intro!: derivative_eq_intros simp: algebra_simps)

theorem Cp_integrals_fast_closed_form_witness:
  "\<exists>d. setup_Cpigs ex_numerics (Some [ex_corr]) = Inr (True, Some d)
      \<and> Cp_integral_fast_i d 300 0 = Inr ((300 * 300 + 3 * 300) - (298.15 * 298.15 + 3 * 298.15))
      \<and> Cp_integral_fast_i d T_REF_IG 0 = Inr 0
      \<and> isCont (\<lambda>t. corr_integral ex_corr t - corr_integral ex_corr T_REF_IG) 200
      \<and> isCont (\<lambda>t. corr_integral ex_corr t - corr_integral ex_corr T_REF_IG) 1000
      \<and> ((\<lambda>t. corr_integral ex_corr t - corr_integral ex_corr T_REF_IG)
           has_real_derivative 603) (at 300)"
proof -
  from ex_setup obtain d where s: "setup_Cpigs ex_numerics (Some [ex_corr]) = Inr (True, Some d)"
    by blast
  have c: "cp11_entry ex_numerics ex_corr = Inr (corr_integral ex_corr T_REF_IG)"
    by (simp add: cp11_entry_def ex_numerics_def corr_integral_def)
  have v: "corr_value ex_corr 300 = 603"
    by (simp add: corr_value_def ex_corr_def horner_def)
  have le: "best_fit_Tmin ([ex_corr] ! 0) \<le> best_fit_Tmax ([ex_corr] ! 0)"
    by (simp add: ex_corr_def)
  have bf: "best_fit_Tmin ex_corr = 200" "best_fit_Tmax ex_corr = 1000"
    "best_fit_int_coeffs ex_corr = [1, 3, 0]" "best_fit_coeffs ex_corr = [2, 3]"
    by (simp_all add: ex_corr_def)
  from Cp_integrals_fast_closed_form [OF s, of 0, OF _ le]
  obtain c' where c': "cp11_entry ex_numerics ex_corr = Inr c'"
    and f: "\<forall>t. Cp_integral_fast_i d t 0 = Inr (corr_integral ex_corr t - c')"
    and lo: "isCont (\<lambda>t. corr_integral ex_corr t - c') 200"
    and hi: "isCont (\<lambda>t. corr_integral ex_corr t - c') 1000"
    and dv: "(\<forall>x. (horner [1, 3, 0] has_real_derivative horner [2, 3] x) (at x)) \<longrightarrow>
          (\<forall>t. t \<noteq> 200 \<and> t \<noteq> 1000 \<longrightarrow>
             ((\<lambda>t. corr_integral ex_corr t - c') has_real_derivative corr_value ex_corr t) (at t))"
    by (auto simp: bf)
  from c c' have e: "c' = corr_integral ex_corr T_REF_IG" by simp
  from dv ex_deriv have
    "((\<lambda>t. corr_integral ex_corr t - c') has_real_derivative corr_value ex_corr 300) (at 300)"
    by simp
  with s f lo hi show ?thesis
    unfolding e v by (auto simp: ex_corr_integral T_REF_IG_def)
qed

end
